theory Spec2Isabelle
  imports Complex_Main
begin

section \<open>Python values, errors and builtins\<close>

text \<open>
  The MMS player is Python code running inside Blender. Every \<^verbatim>\<open>raise\<close>, failed
  \<^verbatim>\<open>assert\<close> and builtin exception of the source is a value of \<open>error\<close>, and a
  function that can raise returns \<open>error + 'a\<close> with \<open>Inl\<close> for the exception.

  Python floats are modelled by exact rationals: rounding of the binary representation is
  outside the model. The builtin \<^verbatim>\<open>float(str)\<close> is a parameter \<open>fl\<close> of every function
  that calls it (\<open>None\<close> stands for \<^verbatim>\<open>ValueError\<close>), so the theorems hold for whatever
  strings the builtin accepts.
\<close>

datatype error =
    TypeError | ValueError | KeyError | IndexError | AttributeError
  | AssertionError | UnboundLocalError | RuntimeError | MissingFile | ZeroDivisionError

text \<open>A table cell: \<^verbatim>\<open>None\<close>, a \<^verbatim>\<open>str\<close>, or a \<^verbatim>\<open>float\<close> written by the compound split.\<close>

datatype cell = CNone | CStr string | CNum rat

definition bindE :: "error + 'a \<Rightarrow> ('a \<Rightarrow> error + 'b) \<Rightarrow> error + 'b" where
  "bindE m f = (case m of Inl e \<Rightarrow> Inl e | Inr x \<Rightarrow> f x)"

definition py_float :: "(string \<Rightarrow> rat option) \<Rightarrow> cell \<Rightarrow> error + rat" where
  "py_float fl c =
     (case c of
        CNone \<Rightarrow> Inl TypeError
      | CNum r \<Rightarrow> Inr r
      | CStr s \<Rightarrow> (case fl s of None \<Rightarrow> Inl ValueError | Some r \<Rightarrow> Inr r))"

text \<open>\<^verbatim>\<open>str.split(c)\<close> for a one-character separator.\<close>

fun split_on :: "char \<Rightarrow> string \<Rightarrow> string list" where
  "split_on c [] = [[]]"
| "split_on c (x # xs) =
     (if x = c then [] # split_on c xs
      else (case split_on c xs of w # ws \<Rightarrow> (x # w) # ws | [] \<Rightarrow> [[x]]))"

text \<open>\<^verbatim>\<open>str.strip(c)\<close> for a one-character set.\<close>

definition strip_char :: "char \<Rightarrow> string \<Rightarrow> string" where
  "strip_char c s = rev (dropWhile (\<lambda>x. x = c) (rev (dropWhile (\<lambda>x. x = c) s)))"

text \<open>Python list indexing with a possibly negative index, and item assignment.\<close>

definition py_index :: "'a list \<Rightarrow> int \<Rightarrow> error + 'a" where
  "py_index xs i =
     (if 0 \<le> i \<and> i < int (length xs) then Inr (xs ! nat i)
      else if i < 0 \<and> - int (length xs) \<le> i then Inr (xs ! nat (int (length xs) + i))
      else Inl IndexError)"

definition set_item :: "'a list \<Rightarrow> nat \<Rightarrow> 'a \<Rightarrow> error + 'a list" where
  "set_item xs i v = (if i < length xs then Inr (xs[i := v]) else Inl IndexError)"

definition dict_get :: "('k \<rightharpoonup> 'v) \<Rightarrow> 'k \<Rightarrow> error + 'v" where
  "dict_get d k = (case d k of None \<Rightarrow> Inl KeyError | Some v \<Rightarrow> Inr v)"

text \<open>The decimal rendering of a non-negative integer in an f-string.\<close>

fun show_nat :: "nat \<Rightarrow> string" where
  "show_nat n =
     (if n < 10 then [char_of (48 + n)]
      else show_nat (n div 10) @ [char_of (48 + n mod 10)])"

declare show_nat.simps [simp del]

text \<open>
  A reader of plain decimal literals (sign, digits, optional fraction). It is the
  fragment of the builtin \<^verbatim>\<open>float\<close> that the example tables use.
\<close>

definition is_digit :: "char \<Rightarrow> bool" where
  "is_digit c = ((48::nat) \<le> of_char c \<and> (of_char c :: nat) \<le> 57)"

definition digits_val :: "string \<Rightarrow> nat" where
  "digits_val s = foldl (\<lambda>a c. 10 * a + ((of_char c :: nat) - 48)) 0 s"

definition float_dec :: "string \<Rightarrow> rat option" where
  "float_dec s =
     (let neg = (take 1 s = ''-'');
          body = (if take 1 s = ''-'' \<or> take 1 s = ''+'' then drop 1 s else s);
          ip = takeWhile (\<lambda>c. c \<noteq> CHR ''.'') body;
          fp = drop 1 (dropWhile (\<lambda>c. c \<noteq> CHR ''.'') body)
      in if (ip = [] \<and> fp = []) \<or> \<not> list_all is_digit ip \<or> \<not> list_all is_digit fp
         then None
         else Some ((if neg then - 1 else 1) *
                (of_nat (digits_val ip) + of_nat (digits_val fp) / 10 ^ length fp)))"

section \<open>The MMS table: \<^verbatim>\<open>player/mms_parser.py\<close>\<close>

text \<open>
  A \<^verbatim>\<open>pathlib.Path\<close> is kept symbolically, as the constructor argument followed by the
  arguments of the \<^verbatim>\<open>joinpath\<close> calls. Whether a path exists on disk is a parameter
  \<open>exists\<close> of the functions that ask.
\<close>

type_synonym path = "string list"

definition joinpath :: "path \<Rightarrow> string \<Rightarrow> path" where
  "joinpath p s = p @ [s]"

text \<open>
  \<^verbatim>\<open>MMSLine\<close>: one row of the table. The field \<^verbatim>\<open>datatype\<close> is \<open>datatype'\<close> here; the
  field \<^verbatim>\<open>data\<close> (a handle on the loaded Blender library) is not modelled.
\<close>

record MMSLine =
  store_index :: "string \<rightharpoonup> nat"
  line_data :: "cell list"
  name :: string
  datatype' :: string
  output_name :: string
  path :: path
  original_frame_range :: "(rat \<times> rat) option"
  resampled_frame_range :: "(rat \<times> rat) option"

definition find_datatype :: "string \<Rightarrow> string \<times> string" where
  "find_datatype nm =
     (if CHR '':'' \<notin> set nm then (nm, ''signs'')
      else (let split = split_on CHR '':'' nm in (split ! 1, split ! 0)))"

text \<open>\<^verbatim>\<open>":" not in name\<close> raises \<^verbatim>\<open>TypeError\<close> when the cell is not a string.\<close>

definition find_datatype_cell :: "cell \<Rightarrow> error + (string \<times> string)" where
  "find_datatype_cell c = (case c of CStr s \<Rightarrow> Inr (find_datatype s) | _ \<Rightarrow> Inl TypeError)"

definition MMSLine_init :: "(string \<rightharpoonup> nat) \<Rightarrow> cell list \<Rightarrow> nat \<Rightarrow> error + MMSLine" where
  "MMSLine_init si ld gloss_idx =
     bindE (py_index ld 0) (\<lambda>c0.
     bindE (find_datatype_cell c0) (\<lambda>(nm, dt).
       Inr \<lparr>store_index = si, line_data = ld, name = nm, datatype' = dt,
            output_name = show_nat gloss_idx @ ''_'' @ nm, path = [''/none''],
            original_frame_range = None, resampled_frame_range = None\<rparr>))"

text \<open>\<^verbatim>\<open>MMSLine.__getitem__\<close>: \<^verbatim>\<open>self.line_data[self.store_index[key]]\<close>.\<close>

definition getitem :: "MMSLine \<Rightarrow> string \<Rightarrow> error + cell" where
  "getitem l key =
     bindE (dict_get (store_index l) key) (\<lambda>i. py_index (line_data l) (int i))"

definition seconds_start :: "(string \<Rightarrow> rat option) \<Rightarrow> MMSLine \<Rightarrow> error + rat" where
  "seconds_start fl l = bindE (getitem l ''framestart'') (py_float fl)"

definition seconds_end :: "(string \<Rightarrow> rat option) \<Rightarrow> MMSLine \<Rightarrow> error + rat" where
  "seconds_end fl l = bindE (getitem l ''frameend'') (py_float fl)"

text \<open>\<^verbatim>\<open>MMSLine.timing\<close>: the start frame is rounded up, the end frame down.\<close>

definition timing :: "(string \<Rightarrow> rat option) \<Rightarrow> MMSLine \<Rightarrow> error + (int \<times> int)" where
  "timing fl l =
     bindE (seconds_start fl l) (\<lambda>s.
     bindE (seconds_end fl l) (\<lambda>e.
       Inr (\<lceil>s * 60\<rceil>, \<lfloor>e * 60\<rfloor>)))"

text \<open>\<^verbatim>\<open>MMSLine.transition\<close>.\<close>

definition transition :: "(string \<Rightarrow> rat option) \<Rightarrow> MMSLine \<Rightarrow> error + int" where
  "transition fl l =
     bindE (getitem l ''transition'') (\<lambda>c.
     bindE (py_float fl c) (\<lambda>t. Inr \<lceil>t * 60\<rceil>))"

text \<open>
  \<^verbatim>\<open>MMS\<close>: the table, an ordered dictionary from \<^verbatim>\<open>(index, name)\<close> to the row, kept as
  an association list in iteration order, with the list of its keys.
\<close>

type_synonym gloss_id = "nat \<times> string"

record MMS =
  mms :: "(gloss_id \<times> MMSLine) list"
  glosses :: "gloss_id list"
  generated_root :: path
  inflections_availability_dict :: "(string \<times> bool) list"

text \<open>\<^verbatim>\<open>d[k] = v\<close> on an insertion-ordered dictionary.\<close>

definition dict_set :: "('k \<times> 'v) list \<Rightarrow> 'k \<Rightarrow> 'v \<Rightarrow> ('k \<times> 'v) list" where
  "dict_set d k v =
     (if k \<in> set (map fst d) then map (\<lambda>(k', v'). if k' = k then (k', v) else (k', v')) d
      else d @ [(k, v)])"

text \<open>The column index: a later column of the same name overwrites an earlier one.\<close>

definition index_for_column :: "string list \<Rightarrow> (string \<rightharpoonup> nat)" where
  "index_for_column hdr = map_of (rev (zip hdr [0 ..< length hdr]))"

definition inflections_availability :: "string list \<Rightarrow> (string \<times> bool) list" where
  "inflections_availability hdr =
     [(''domhandreloc'', ''domhandrelocx'' \<in> set hdr),
      (''ndomhandreloc'', ''ndomhandrelocx'' \<in> set hdr),
      (''domhandrot'', ''domhandrotx'' \<in> set hdr),
      (''ndomhandrot'', ''ndomhandrotx'' \<in> set hdr),
      (''torso'', ''torsorelocax'' \<in> set hdr \<and> ''torsorelocx'' \<in> set hdr),
      (''head'', ''headrotx'' \<in> set hdr),
      (''shoulders'', ''domshoulderrelocx'' \<in> set hdr)]"

text \<open>
  The body of the loop over \<^verbatim>\<open>enumerate(names)\<close> in the compound split of
  \<^verbatim>\<open>MMSParser.parse\<close>: sub-gloss \<open>i\<close> of \<open>n\<close>, written over a copy of the row.
\<close>

definition split_line ::
  "(string \<rightharpoonup> nat) \<Rightarrow> cell list \<Rightarrow> string \<Rightarrow> rat \<Rightarrow> rat \<Rightarrow> nat \<Rightarrow> nat \<Rightarrow> string
     \<Rightarrow> error + cell list" where
  "split_line ic gloss_line prefix start delta n i gloss =
     (let scale = 3 / 10 in
      bindE (set_item gloss_line 0 (CStr (prefix @ '':'' @ gloss))) (\<lambda>line0.
      bindE (dict_get ic ''framestart'') (\<lambda>ifs.
      bindE (set_item line0 ifs (CNum (start + delta * of_nat i))) (\<lambda>line1.
      bindE (dict_get ic ''frameend'') (\<lambda>ife.
      bindE (set_item line1 ife (CNum (start + delta * (of_nat i + 1) - scale * delta))) (\<lambda>line2.
      bindE (dict_get ic ''transition'') (\<lambda>itr.
      bindE (set_item line2 itr (CNum (scale * delta))) (\<lambda>line3.
        if int i = int n - 1
        then bindE (py_index gloss_line (int itr)) (\<lambda>v. set_item line3 itr v)
        else Inr line3))))))))"

fun split_loop ::
  "(string \<rightharpoonup> nat) \<Rightarrow> cell list \<Rightarrow> string \<Rightarrow> rat \<Rightarrow> rat \<Rightarrow> nat \<Rightarrow> nat
     \<Rightarrow> (nat \<times> string) list \<Rightarrow> (gloss_id \<times> MMSLine) list
     \<Rightarrow> error + (gloss_id \<times> MMSLine) list" where
  "split_loop ic gloss_line prefix start delta n idx [] gl = Inr gl"
| "split_loop ic gloss_line prefix start delta n idx ((i, gloss) # rest) gl =
     bindE (split_line ic gloss_line prefix start delta n i gloss) (\<lambda>line.
     bindE (MMSLine_init ic line (idx + i)) (\<lambda>gloss_data.
       split_loop ic gloss_line prefix start delta n idx rest
         (dict_set gl (idx + i, name gloss_data) gloss_data)))"

definition compound_split ::
  "(string \<Rightarrow> rat option) \<Rightarrow> (string \<rightharpoonup> nat) \<Rightarrow> cell list \<Rightarrow> string \<Rightarrow> string \<Rightarrow> nat
     \<Rightarrow> (gloss_id \<times> MMSLine) list \<Rightarrow> error + (gloss_id \<times> MMSLine) list" where
  "compound_split fl ic gloss_line prefix nm idx gl =
     bindE (dict_get ic ''framestart'') (\<lambda>ifs.
     bindE (py_index gloss_line (int ifs)) (\<lambda>cs.
     bindE (py_float fl cs) (\<lambda>start.
     bindE (dict_get ic ''frameend'') (\<lambda>ife.
     bindE (py_index gloss_line (int ife)) (\<lambda>ce.
     bindE (py_float fl ce) (\<lambda>end_s.
       (let diff = end_s - start;
            names = split_on CHR ''-'' nm;
            delta = diff / of_nat (length names)
        in split_loop ic gloss_line prefix start delta (length names) idx
             (zip [0 ..< length names] names) gl)))))))"

text \<open>The loop over the data rows of \<^verbatim>\<open>MMSParser.parse\<close>, with its counter \<^verbatim>\<open>idx\<close>.\<close>

fun parse_rows ::
  "(string \<Rightarrow> rat option) \<Rightarrow> (string \<rightharpoonup> nat) \<Rightarrow> string list list \<Rightarrow> nat
     \<Rightarrow> (gloss_id \<times> MMSLine) list \<Rightarrow> error + (gloss_id \<times> MMSLine) list" where
  "parse_rows fl ic [] idx gl = Inr gl"
| "parse_rows fl ic (row # rows) idx gl =
     bindE (py_index row 0) (\<lambda>c0.
       (let (nm, prefix) = find_datatype c0;
            gloss_line = map (\<lambda>x. if x \<noteq> [] then CStr x else CNone) row
        in if prefix \<noteq> ''signs'' \<and> CHR ''-'' \<in> set nm
           then bindE (compound_split fl ic gloss_line prefix nm idx gl) (\<lambda>gl'.
                  parse_rows fl ic rows (idx + length (split_on CHR ''-'' nm)) gl')
           else bindE (MMSLine_init ic gloss_line idx) (\<lambda>gloss_data.
                  parse_rows fl ic rows (idx + 1)
                    (dict_set gl (idx, name gloss_data) gloss_data))))"

text \<open>
  The final \<^verbatim>\<open>sorted(glosses.items(), key=lambda x: x[1].timing()[0])\<close>: the key is
  computed for every entry in order (the first failure raises), then the entries are
  sorted stably by it.
\<close>

fun first_error :: "(error + 'a) list \<Rightarrow> error option" where
  "first_error [] = None"
| "first_error (Inl e # xs) = Some e"
| "first_error (Inr x # xs) = first_error xs"

definition start_frame :: "(string \<Rightarrow> rat option) \<Rightarrow> MMSLine \<Rightarrow> int" where
  "start_frame fl l = (case timing fl l of Inr (s, e) \<Rightarrow> s | Inl err \<Rightarrow> 0)"

definition end_frame :: "(string \<Rightarrow> rat option) \<Rightarrow> MMSLine \<Rightarrow> int" where
  "end_frame fl l = (case timing fl l of Inr (s, e) \<Rightarrow> e | Inl err \<Rightarrow> 0)"

definition sort_by_start ::
  "(string \<Rightarrow> rat option) \<Rightarrow> (gloss_id \<times> MMSLine) list \<Rightarrow> error + (gloss_id \<times> MMSLine) list" where
  "sort_by_start fl gl =
     (case first_error (map (\<lambda>x. timing fl (snd x)) gl) of
        Some e \<Rightarrow> Inl e
      | None \<Rightarrow> Inr (sort_key (\<lambda>x. start_frame fl (snd x)) gl))"

text \<open>\<^verbatim>\<open>MMSParser.parse\<close> on the rows read from the CSV file (the header first).\<close>

definition parse :: "(string \<Rightarrow> rat option) \<Rightarrow> string list list \<Rightarrow> path \<Rightarrow> error + MMS" where
  "parse fl data groot =
     bindE (py_index data 0) (\<lambda>hdr.
     bindE (parse_rows fl (index_for_column hdr) (drop 1 data) 0 []) (\<lambda>gl.
     bindE (sort_by_start fl gl) (\<lambda>sorted_gl.
       Inr \<lparr>mms = sorted_gl, glosses = map fst sorted_gl, generated_root = groot,
            inflections_availability_dict = inflections_availability hdr\<rparr>)))"

text \<open>
  \<^verbatim>\<open>MMSLine.duration\<close>: a cell containing \<^verbatim>\<open>%\<close> is a ratio of the original duration,
  any other cell is a time in seconds converted to frames.
\<close>

definition duration :: "(string \<Rightarrow> rat option) \<Rightarrow> MMSLine \<Rightarrow> error + (rat \<times> bool)" where
  "duration fl l =
     bindE (getitem l ''duration'') (\<lambda>c.
       case c of
         CStr d \<Rightarrow>
           if CHR ''%'' \<in> set d
           then bindE (py_float fl (CStr (strip_char CHR ''%'' d))) (\<lambda>t. Inr (t / 100, True))
           else bindE (py_float fl (CStr d)) (\<lambda>t. Inr (of_int \<lceil>t * 60\<rceil>, False))
       | _ \<Rightarrow> Inl TypeError)"

text \<open>
  \<^verbatim>\<open>re.findall(r'<(.*?)>', name)[0]\<close> when there is a match: the text between the first
  \<^verbatim>\<open><\<close> that is followed by a \<^verbatim>\<open>>\<close> on the same line, and that \<^verbatim>\<open>>\<close>.
\<close>

fun angle_body :: "string \<Rightarrow> string option" where
  "angle_body [] = None"
| "angle_body (c # cs) =
     (if c = CHR ''>'' then Some []
      else if c = CHR 0x0A then None
      else map_option ((#) c) (angle_body cs))"

fun first_angle :: "string \<Rightarrow> string option" where
  "first_angle [] = None"
| "first_angle (c # cs) =
     (if c = CHR ''<''
      then (case angle_body cs of Some b \<Rightarrow> Some b | None \<Rightarrow> first_angle cs)
      else first_angle cs)"

definition is_hold :: "string \<Rightarrow> bool" where
  "is_hold nm = (first_angle nm = Some ''HOLD'')"

text \<open>\<^verbatim>\<open>MMS.__getitem__\<close> and the in-place update of the row stored under a key.\<close>

definition mms_get :: "(gloss_id \<times> MMSLine) list \<Rightarrow> gloss_id \<Rightarrow> error + MMSLine" where
  "mms_get d k = (case map_of d k of None \<Rightarrow> Inl KeyError | Some l \<Rightarrow> Inr l)"

definition mms_upd ::
  "(gloss_id \<times> MMSLine) list \<Rightarrow> gloss_id \<Rightarrow> (MMSLine \<Rightarrow> MMSLine) \<Rightarrow> (gloss_id \<times> MMSLine) list" where
  "mms_upd d k f = map (\<lambda>(k', l). if k' = k then (k', f l) else (k', l)) d"

definition motion_path :: "path \<Rightarrow> MMSLine \<Rightarrow> path" where
  "motion_path groot gloss =
     joinpath (joinpath (joinpath groot (datatype' gloss)) ''trimmed'') (name gloss @ ''.blend'')"

text \<open>
  \<^verbatim>\<open>MMS.find_mocap_data_files\<close>. The loop runs over \<^verbatim>\<open>enumerate(self.glosses)\<close>; the local
  variable \<^verbatim>\<open>gloss_path\<close> is \<open>None\<close> while unbound and keeps its value from one iteration
  to the next. The assignment after the \<^verbatim>\<open>if\<close>/\<^verbatim>\<open>else\<close> is executed in both branches.
\<close>

fun find_mocap_loop ::
  "(path \<Rightarrow> bool) \<Rightarrow> path \<Rightarrow> gloss_id list \<Rightarrow> nat \<Rightarrow> gloss_id list \<Rightarrow> path option
     \<Rightarrow> (gloss_id \<times> MMSLine) list \<Rightarrow> error + (gloss_id \<times> MMSLine) list" where
  "find_mocap_loop ex groot gs num [] gloss_path d = Inr d"
| "find_mocap_loop ex groot gs num (gloss_id # rest) gloss_path d =
     bindE (mms_get d gloss_id) (\<lambda>gloss.
       if is_hold (name gloss)
       then bindE (py_index gs (int num - 1)) (\<lambda>prev_id.
            bindE (mms_get d prev_id) (\<lambda>prev.
              (let d1 = mms_upd d gloss_id (\<lambda>l. l\<lparr>path := path prev\<rparr>);
                   d2 = mms_upd d1 gloss_id (\<lambda>l. l\<lparr>datatype' := ''HOLD''\<rparr>)
               in case gloss_path of
                    None \<Rightarrow> Inl UnboundLocalError
                  | Some p \<Rightarrow>
                      find_mocap_loop ex groot gs (num + 1) rest gloss_path
                        (mms_upd d2 gloss_id (\<lambda>l. l\<lparr>path := p\<rparr>)))))
       else (let p = motion_path groot gloss
             in if \<not> ex p then Inl MissingFile
                else find_mocap_loop ex groot gs (num + 1) rest (Some p)
                       (mms_upd d gloss_id (\<lambda>l. l\<lparr>path := p\<rparr>))))"

definition find_mocap_data_files :: "(path \<Rightarrow> bool) \<Rightarrow> MMS \<Rightarrow> error + MMS" where
  "find_mocap_data_files ex m =
     bindE (find_mocap_loop ex (generated_root m) (glosses m) 0 (glosses m) None (mms m))
       (\<lambda>d. Inr (m\<lparr>mms := d\<rparr>))"

section \<open>The animation host: actions, f-curves and keyframes\<close>

text \<open>
  Blender is outside the repository. An action is the list of its f-curves; an f-curve
  has a data path, an array index and its keyframe points \<open>(frame, value)\<close>;
  \<^verbatim>\<open>bpy.data.actions\<close> is a dictionary from names to actions. The host's operations are
  modelled from their documented behaviour: \<^verbatim>\<open>fcurves.find\<close> returns the first curve with
  the given path and index or \<^verbatim>\<open>None\<close>; \<^verbatim>\<open>fcurves.new\<close> raises when such a curve exists;
  \<^verbatim>\<open>keyframe_points.insert\<close> overwrites the value of a keyframe already at that frame and
  otherwise inserts the point before the first later one. Curve evaluation
  (\<^verbatim>\<open>fcurve.evaluate\<close>) and \<^verbatim>\<open>action.frame_range\<close> are parameters.
\<close>

record fcurve =
  data_path :: string
  array_index :: nat
  keyframe_points :: "(rat \<times> rat) list"

type_synonym action = "fcurve list"

type_synonym actions = "string \<rightharpoonup> action"

fun fcurves_find :: "action \<Rightarrow> string \<Rightarrow> nat \<Rightarrow> nat option" where
  "fcurves_find [] dp ix = None"
| "fcurves_find (c # cs) dp ix =
     (if data_path c = dp \<and> array_index c = ix then Some 0
      else map_option Suc (fcurves_find cs dp ix))"

definition fcurves_new :: "action \<Rightarrow> string \<Rightarrow> nat \<Rightarrow> error + action" where
  "fcurves_new a dp ix =
     (if fcurves_find a dp ix \<noteq> None then Inl RuntimeError
      else Inr (a @ [\<lparr>data_path = dp, array_index = ix, keyframe_points = []\<rparr>]))"

fun kf_insert :: "rat \<Rightarrow> rat \<Rightarrow> (rat \<times> rat) list \<Rightarrow> (rat \<times> rat) list" where
  "kf_insert f v [] = [(f, v)]"
| "kf_insert f v ((f', v') # ks) =
     (if f = f' then (f, v) # ks
      else if f < f' then (f, v) # (f', v') # ks
      else (f', v') # kf_insert f v ks)"

text \<open>\<^verbatim>\<open>a.fcurves[j].keyframe_points.insert(frame, value)\<close>.\<close>

definition insert_at :: "action \<Rightarrow> nat \<Rightarrow> rat \<Rightarrow> rat \<Rightarrow> action" where
  "insert_at a j f v = a[j := (a ! j)\<lparr>keyframe_points := kf_insert f v (keyframe_points (a ! j))\<rparr>]"

text \<open>\<^verbatim>\<open>int(x)\<close> of a float: truncation towards zero.\<close>

definition py_int :: "rat \<Rightarrow> int" where
  "py_int x = (if 0 \<le> x then \<lfloor>x\<rfloor> else \<lceil>x\<rceil>)"

section \<open>Merging: \<^verbatim>\<open>player/merge.py\<close>\<close>

text \<open>The body of the loop of \<^verbatim>\<open>Glue.perform_hold\<close> for one f-curve of the source.\<close>

definition hold_fcurve :: "rat \<Rightarrow> rat \<Rightarrow> fcurve \<Rightarrow> action \<Rightarrow> error + action" where
  "hold_fcurve start end_fr source_fcurve target_action =
     (let target_curve =
            fcurves_find target_action (data_path source_fcurve) (array_index source_fcurve);
          last_keyframe_idx = int (length (keyframe_points source_fcurve)) - 1
      in bindE (py_index (keyframe_points source_fcurve) last_keyframe_idx)
           (\<lambda>last_keyframe_point.
              case target_curve of
                None \<Rightarrow> Inl AttributeError
              | Some j \<Rightarrow>
                  Inr (insert_at (insert_at target_action j start (snd last_keyframe_point))
                         j end_fr (snd last_keyframe_point))))"

fun hold_loop :: "rat \<Rightarrow> rat \<Rightarrow> fcurve list \<Rightarrow> action \<Rightarrow> error + action" where
  "hold_loop start end_fr [] target_action = Inr target_action"
| "hold_loop start end_fr (source_fcurve # rest) target_action =
     bindE (hold_fcurve start end_fr source_fcurve target_action)
       (hold_loop start end_fr rest)"

definition perform_hold ::
  "actions \<Rightarrow> string \<Rightarrow> string \<Rightarrow> rat \<Rightarrow> rat \<Rightarrow> error + (actions \<times> rat)" where
  "perform_hold acts target_animation source_animation start end_fr =
     bindE (dict_get acts source_animation) (\<lambda>source_action.
     bindE (dict_get acts target_animation) (\<lambda>target_action.
     bindE (hold_loop start end_fr source_action target_action) (\<lambda>t.
       Inr (acts(target_animation \<mapsto> t), end_fr))))"

text \<open>
  The body of the loop of \<^verbatim>\<open>Glue.combine_animation\<close> for one f-curve: every keyframe is
  copied to the frame \<^verbatim>\<open>co[0] + start - 1\<close>; \<^verbatim>\<open>target_fcurve.update()\<close> follows, so a failed
  lookup raises even when the source curve has no keyframe.
\<close>

definition combine_fcurve :: "rat \<Rightarrow> fcurve \<Rightarrow> action \<Rightarrow> error + action" where
  "combine_fcurve start source_fcurve target_action =
     (case fcurves_find target_action (data_path source_fcurve) (array_index source_fcurve) of
        None \<Rightarrow> Inl AttributeError
      | Some j \<Rightarrow>
          Inr (fold (\<lambda>src_kfp a. insert_at a j (fst src_kfp + start - 1) (snd src_kfp))
                 (keyframe_points source_fcurve) target_action))"

fun combine_loop :: "rat \<Rightarrow> fcurve list \<Rightarrow> action \<Rightarrow> error + action" where
  "combine_loop start [] target_action = Inr target_action"
| "combine_loop start (source_fcurve # rest) target_action =
     bindE (combine_fcurve start source_fcurve target_action) (combine_loop start rest)"

definition combine_animation ::
  "(action \<Rightarrow> rat \<times> rat) \<Rightarrow> actions \<Rightarrow> string \<Rightarrow> string \<Rightarrow> rat \<Rightarrow> error + (actions \<times> rat)" where
  "combine_animation frame_range acts target_animation source_animation start =
     bindE (dict_get acts source_animation) (\<lambda>source_action.
       (let (action_start, action_end) = frame_range source_action in
        bindE (dict_get acts target_animation) (\<lambda>target_action.
        bindE (combine_loop start source_action target_action) (\<lambda>t.
          Inr (acts(target_animation \<mapsto> t), of_int (py_int action_end) + start)))))"

text \<open>
  \<^verbatim>\<open>Glue.create_new_fcurves\<close>. The armature's action is the one created by
  \<^verbatim>\<open>initialize_mesh\<close> under \<^verbatim>\<open>self.action_name\<close>.
\<close>

fun new_fcurves_loop :: "fcurve list \<Rightarrow> action \<Rightarrow> error + action" where
  "new_fcurves_loop [] target_action = Inr target_action"
| "new_fcurves_loop (source_fcurve # rest) target_action =
     bindE (fcurves_new target_action (data_path source_fcurve) (array_index source_fcurve))
       (new_fcurves_loop rest)"

definition create_new_fcurves ::
  "actions \<Rightarrow> string \<Rightarrow> MMS \<Rightarrow> string option \<Rightarrow> error + actions" where
  "create_new_fcurves acts self_action_name m action_name =
     bindE (case action_name of
              Some n \<Rightarrow> Inr n
            | None \<Rightarrow>
                bindE (py_index (glosses m) 0) (\<lambda>g0.
                bindE (mms_get (mms m) g0) (\<lambda>gloss.
                  Inr (''inflected_'' @ output_name gloss)))) (\<lambda>an.
     bindE (dict_get acts an) (\<lambda>act.
       if length act = 0 then Inl AssertionError
       else bindE (dict_get acts self_action_name) (\<lambda>target_action.
            bindE (new_fcurves_loop act target_action) (\<lambda>t.
              Inr (acts(self_action_name \<mapsto> t))))))"

text \<open>
  \<^verbatim>\<open>Glue.merge_animation\<close>. First the window \<^verbatim>\<open>(start, end)\<close> of a gloss, from the
  previous end in relative mode or from the timing shifted by one frame.
\<close>

definition merge_window ::
  "(string \<Rightarrow> rat option) \<Rightarrow> bool \<Rightarrow> rat \<Rightarrow> MMSLine \<Rightarrow> error + (rat \<times> rat)" where
  "merge_window fl use_rel_time last_gloss_end l =
     (if use_rel_time
      then bindE (transition fl l) (\<lambda>tr.
           (let start = last_gloss_end + of_int tr in
            bindE (duration fl l) (\<lambda>(dur, is_relative).
            bindE (if is_relative
                   then (if 0 \<le> dur \<and> dur \<le> 1
                         then (case original_frame_range l of
                                 None \<Rightarrow> Inl TypeError
                               | Some (fs, fe) \<Rightarrow> Inr ((fe - fs) * dur))
                         else Inl AssertionError)
                   else Inr dur) (\<lambda>dur'.
              Inr (start, start + dur')))))
      else bindE (timing fl l) (\<lambda>(s, e). Inr (of_int s + 1, of_int e + 1)))"

text \<open>The source of a hold: \<^verbatim>\<open>self.mms.glosses[gloss[0] - 1]\<close>.\<close>

definition hold_source :: "MMS \<Rightarrow> gloss_id \<Rightarrow> error + string" where
  "hold_source m gloss =
     (let prev_gloss_index = int (fst gloss) - 1 in
      bindE (py_index (glosses m) prev_gloss_index) (\<lambda>prev_gloss_id.
      bindE (mms_get (mms m) prev_gloss_id) (\<lambda>prev.
        Inr (''inflected_'' @ output_name prev))))"

text \<open>The hold or combine branch of one iteration; it returns \<^verbatim>\<open>end_frame\<close>.\<close>

definition merge_op ::
  "(action \<Rightarrow> rat \<times> rat) \<Rightarrow> string \<Rightarrow> MMS \<Rightarrow> gloss_id \<Rightarrow> MMSLine \<Rightarrow> rat \<Rightarrow> rat \<Rightarrow> actions
     \<Rightarrow> error + (actions \<times> rat)" where
  "merge_op frame_range self_action_name m gloss l start end_fr acts =
     (if datatype' l = ''HOLD''
      then bindE (hold_source m gloss) (\<lambda>src.
             perform_hold acts self_action_name src start end_fr)
      else combine_animation frame_range acts self_action_name
             (''inflected_'' @ output_name l) start)"

text \<open>One iteration for a gloss whose path exists, with the final assertion.\<close>

definition merge_step ::
  "(string \<Rightarrow> rat option) \<Rightarrow> (action \<Rightarrow> rat \<times> rat) \<Rightarrow> bool \<Rightarrow> string \<Rightarrow> MMS \<Rightarrow> gloss_id
     \<Rightarrow> MMSLine \<Rightarrow> rat \<Rightarrow> actions \<Rightarrow> error + (actions \<times> rat)" where
  "merge_step fl frame_range use_rel_time self_action_name m gloss l last_gloss_end acts =
     bindE (merge_window fl use_rel_time last_gloss_end l) (\<lambda>(start, end_fr).
     bindE (merge_op frame_range self_action_name m gloss l start end_fr acts)
       (\<lambda>(acts', end_frame).
          if end_fr - 1 \<le> end_frame \<and> end_frame \<le> end_fr + 1 then Inr (acts', end_fr)
          else Inl AssertionError))"

fun merge_loop ::
  "(string \<Rightarrow> rat option) \<Rightarrow> (path \<Rightarrow> bool) \<Rightarrow> (action \<Rightarrow> rat \<times> rat) \<Rightarrow> bool \<Rightarrow> string \<Rightarrow> MMS
     \<Rightarrow> gloss_id list \<Rightarrow> rat \<Rightarrow> actions \<Rightarrow> error + actions" where
  "merge_loop fl ex frame_range use_rel_time self_action_name m [] last_gloss_end acts = Inr acts"
| "merge_loop fl ex frame_range use_rel_time self_action_name m (gloss # rest) last_gloss_end acts =
     bindE (mms_get (mms m) gloss) (\<lambda>l.
       if \<not> ex (path l)
       then merge_loop fl ex frame_range use_rel_time self_action_name m rest last_gloss_end acts
       else bindE (merge_step fl frame_range use_rel_time self_action_name m gloss l
                     last_gloss_end acts) (\<lambda>(acts', last').
              merge_loop fl ex frame_range use_rel_time self_action_name m rest last' acts'))"

definition merge_animation ::
  "(string \<Rightarrow> rat option) \<Rightarrow> (path \<Rightarrow> bool) \<Rightarrow> (action \<Rightarrow> rat \<times> rat) \<Rightarrow> string \<Rightarrow> MMS \<Rightarrow> bool
     \<Rightarrow> actions \<Rightarrow> error + actions" where
  "merge_animation fl ex frame_range self_action_name m use_rel_time acts =
     merge_loop fl ex frame_range use_rel_time self_action_name m (glosses m) 1 acts"

text \<open>
  Two observations used to state properties of actions: the channel of an f-curve, and
  the keyframes an action holds for a channel (those of the curve \<^verbatim>\<open>fcurves.find\<close> returns).
\<close>

definition chan :: "fcurve \<Rightarrow> string \<times> nat" where
  "chan c = (data_path c, array_index c)"

definition curve_of :: "action \<Rightarrow> string \<times> nat \<Rightarrow> (rat \<times> rat) list option" where
  "curve_of a c = map_option (\<lambda>j. keyframe_points (a ! j)) (fcurves_find a (fst c) (snd c))"

section \<open>Inflection vectors and targets: \<^verbatim>\<open>player/targets.py\<close>\<close>

text \<open>
  \<^verbatim>\<open>mathutils\<close> is outside the repository. Its matrices, quaternions and vectors are
  values of a type \<open>'v\<close>, and its operations are the fields of a record passed to the
  functions that use them. A Python variable holding such a value or \<^verbatim>\<open>None\<close> is a
  \<open>'v option\<close>. The operator \<^verbatim>\<open>@\<close> raises \<^verbatim>\<open>TypeError\<close> when an operand is \<^verbatim>\<open>None\<close>.
\<close>

record 'v mathutils =
  identity4 :: 'v
  identity_quat :: 'v
  euler_matrix4 :: "rat \<times> rat \<times> rat \<Rightarrow> 'v"
  euler_quaternion :: "rat \<times> rat \<times> rat \<Rightarrow> 'v"
  translation4 :: "rat \<times> rat \<times> rat \<Rightarrow> 'v"
  scale4 :: "rat \<times> rat \<times> rat \<Rightarrow> 'v"
  matmul :: "'v \<Rightarrow> 'v \<Rightarrow> 'v"
  inverted :: "'v \<Rightarrow> 'v"
  to_quaternion :: "'v \<Rightarrow> 'v"
  to_euler :: "'v \<Rightarrow> 'v"
  vadd :: "'v \<Rightarrow> 'v \<Rightarrow> 'v"
  vsub :: "'v \<Rightarrow> 'v \<Rightarrow> 'v"
  translation_of :: "'v \<Rightarrow> 'v"
  neg_translation_of :: "'v \<Rightarrow> 'v"

definition py_matmul :: "'v mathutils \<Rightarrow> 'v option \<Rightarrow> 'v option \<Rightarrow> error + 'v option" where
  "py_matmul lib a b =
     (case (a, b) of (Some x, Some y) \<Rightarrow> Inr (Some (matmul lib x y)) | _ \<Rightarrow> Inl TypeError)"

text \<open>The truth value of a cell, as \<^verbatim>\<open>all((x, y, z))\<close> tests it.\<close>

definition truthy :: "cell \<Rightarrow> bool" where
  "truthy c = (case c of CNone \<Rightarrow> False | CStr s \<Rightarrow> s \<noteq> [] | CNum r \<Rightarrow> r \<noteq> 0)"

text \<open>\<^verbatim>\<open>MMSLine.handle_none\<close> and the accessors built on it.\<close>

definition handle_none ::
  "(string \<Rightarrow> rat option) \<Rightarrow> MMSLine \<Rightarrow> string \<Rightarrow> error + (rat \<times> rat \<times> rat) option" where
  "handle_none fl l key =
     bindE (getitem l (key @ ''x'')) (\<lambda>x.
     bindE (getitem l (key @ ''y'')) (\<lambda>y.
     bindE (getitem l (key @ ''z'')) (\<lambda>z.
       if \<not> (truthy x \<and> truthy y \<and> truthy z) then Inr None
       else bindE (py_float fl x) (\<lambda>fx.
            bindE (py_float fl y) (\<lambda>fy.
            bindE (py_float fl z) (\<lambda>fz. Inr (Some (fx, fy, fz))))))))"

definition traj_rotation ::
  "'v mathutils \<Rightarrow> (string \<Rightarrow> rat option) \<Rightarrow> MMSLine \<Rightarrow> string \<Rightarrow> error + 'v option" where
  "traj_rotation lib fl l dominance =
     bindE (handle_none fl l (dominance @ ''handreloca''))
       (\<lambda>values. Inr (map_option (euler_matrix4 lib) values))"

definition hand_orientation ::
  "'v mathutils \<Rightarrow> (string \<Rightarrow> rat option) \<Rightarrow> MMSLine \<Rightarrow> string \<Rightarrow> error + 'v option" where
  "hand_orientation lib fl l dominance =
     bindE (handle_none fl l (dominance @ ''handrot''))
       (\<lambda>values. Inr (map_option (euler_quaternion lib) values))"

definition translation ::
  "'v mathutils \<Rightarrow> (string \<Rightarrow> rat option) \<Rightarrow> MMSLine \<Rightarrow> string \<Rightarrow> error + 'v option" where
  "translation lib fl l dominance =
     bindE (handle_none fl l (dominance @ ''handreloc''))
       (\<lambda>values. Inr (map_option (translation4 lib) values))"

definition scale_mms ::
  "'v mathutils \<Rightarrow> (string \<Rightarrow> rat option) \<Rightarrow> MMSLine \<Rightarrow> string \<Rightarrow> error + 'v option" where
  "scale_mms lib fl l dominance =
     bindE (handle_none fl l (dominance @ ''handrelocs''))
       (\<lambda>values. Inr (map_option (scale4 lib) values))"

definition head_rot ::
  "'v mathutils \<Rightarrow> (string \<Rightarrow> rat option) \<Rightarrow> MMSLine \<Rightarrow> error + 'v option" where
  "head_rot lib fl l =
     bindE (handle_none fl l ''headrot'')
       (\<lambda>values. Inr (map_option (euler_quaternion lib) values))"

definition shoulder_shift ::
  "'v mathutils \<Rightarrow> (string \<Rightarrow> rat option) \<Rightarrow> MMSLine \<Rightarrow> string \<Rightarrow> error + 'v option" where
  "shoulder_shift lib fl l dominance =
     bindE (handle_none fl l (dominance @ ''shoulderreloc''))
       (\<lambda>values. Inr (map_option (translation4 lib) values))"

definition torso_shift ::
  "'v mathutils \<Rightarrow> (string \<Rightarrow> rat option) \<Rightarrow> MMSLine \<Rightarrow> error + 'v option" where
  "torso_shift lib fl l =
     bindE (handle_none fl l ''torsoreloc'')
       (\<lambda>values. Inr (map_option (translation4 lib) values))"

definition torso_rot ::
  "'v mathutils \<Rightarrow> (string \<Rightarrow> rat option) \<Rightarrow> MMSLine \<Rightarrow> error + 'v option" where
  "torso_rot lib fl l =
     bindE (handle_none fl l ''torsoreloca'')
       (\<lambda>values. Inr (map_option (euler_quaternion lib) values))"

text \<open>
  A target: its class, the constructor arguments that the methods read, the three
  deltas (with the class attributes as initial values), the cached \<^verbatim>\<open>head\<close>, and the
  location and rotation of its controller object \<^verbatim>\<open>ctrl\<close>.
\<close>

datatype target_class =
  LocalRotationTarget | TrajectoryTarget | RelativeLocRotTarget | HeadRotTarget

record 'v target =
  target_class :: target_class
  dominance :: string
  target_bone :: string
  target_root :: string
  inflection_type :: string
  delta_r :: "'v option"
  delta_o :: "'v option"
  delta_t :: "'v option"
  head :: "'v option"
  ctrl_location :: "'v option"
  ctrl_rotation_quaternion :: "'v option"

definition new_target ::
  "'v mathutils \<Rightarrow> target_class \<Rightarrow> string \<Rightarrow> string \<Rightarrow> string \<Rightarrow> string \<Rightarrow> 'v \<Rightarrow> 'v \<Rightarrow> 'v target" where
  "new_target lib cls dominance_side bone root_bone itype loc rot =
     \<lparr>target_class = cls, dominance = dominance_side, target_bone = bone, target_root = root_bone,
      inflection_type = itype, delta_r = Some (identity4 lib),
      delta_o = Some (identity_quat lib), delta_t = Some (identity4 lib), head = None,
      ctrl_location = Some loc, ctrl_rotation_quaternion = Some rot\<rparr>"

text \<open>\<^verbatim>\<open>init_from_mms\<close> of the four classes.\<close>

definition init_from_mms ::
  "'v mathutils \<Rightarrow> (string \<Rightarrow> rat option) \<Rightarrow> MMSLine \<Rightarrow> 'v target \<Rightarrow> error + 'v target" where
  "init_from_mms lib fl mms_line t =
     (case target_class t of
        LocalRotationTarget \<Rightarrow>
          bindE (hand_orientation lib fl mms_line (dominance t)) (\<lambda>q. Inr (t\<lparr>delta_o := q\<rparr>))
      | TrajectoryTarget \<Rightarrow>
          bindE (translation lib fl mms_line (dominance t)) (\<lambda>h_translation.
          bindE (traj_rotation lib fl mms_line (dominance t)) (\<lambda>h_rotation.
          bindE (scale_mms lib fl mms_line (dominance t)) (\<lambda>h_scale.
          bindE (py_matmul lib h_rotation h_scale) (\<lambda>r.
            Inr (t\<lparr>delta_r := r, delta_t := h_translation\<rparr>)))))
      | RelativeLocRotTarget \<Rightarrow>
          if inflection_type t = ''torso''
          then bindE (torso_shift lib fl mms_line) (\<lambda>ts.
               bindE (torso_rot lib fl mms_line) (\<lambda>tr.
                 Inr (t\<lparr>delta_t := ts, delta_o := tr\<rparr>)))
          else if inflection_type t = ''shoulder''
          then bindE (shoulder_shift lib fl mms_line (dominance t)) (\<lambda>ss.
                 Inr (t\<lparr>delta_t := ss\<rparr>))
          else Inr t
      | HeadRotTarget \<Rightarrow>
          bindE (head_rot lib fl mms_line) (\<lambda>q. Inr (t\<lparr>delta_o := q\<rparr>)))"

text \<open>
  The part of the scene that \<^verbatim>\<open>inflect\<close> reads and writes: the pose bones of the
  inflected armature and of the dictionary armature, and the keyframes inserted
  (object or bone, property, frame, value).
\<close>

record 'v bone =
  rotation_euler :: 'v
  bone_matrix :: 'v
  bone_head :: 'v
  bone_tail :: 'v

record 'v scene =
  armature_bones :: "string \<rightharpoonup> 'v bone"
  dict_bones :: "string \<rightharpoonup> 'v bone"
  keyframes :: "(string \<times> string \<times> int \<times> 'v option) list"

definition get_rotation_rel_to :: "'v mathutils \<Rightarrow> 'v bone \<Rightarrow> 'v bone \<Rightarrow> 'v" where
  "get_rotation_rel_to lib source_bone relative_bone =
     matmul lib (inverted lib (to_quaternion lib (bone_matrix relative_bone)))
       (to_quaternion lib (bone_matrix source_bone))"

definition compute_rotation_rel_to :: "'v mathutils \<Rightarrow> 'v bone \<Rightarrow> 'v bone \<Rightarrow> 'v \<Rightarrow> 'v" where
  "compute_rotation_rel_to lib source_bone relative_bone rotation =
     matmul lib
       (matmul lib
          (matmul lib (to_quaternion lib (rotation_euler source_bone))
             (inverted lib (to_quaternion lib (bone_matrix source_bone))))
          (to_quaternion lib (bone_matrix relative_bone)))
       rotation"

text \<open>\<^verbatim>\<open>inflect(frame)\<close> of the four classes.\<close>

definition inflect ::
  "'v mathutils \<Rightarrow> int \<Rightarrow> 'v target \<Rightarrow> 'v scene \<Rightarrow> error + ('v target \<times> 'v scene)" where
  "inflect lib frame t sc =
     (case target_class t of
        LocalRotationTarget \<Rightarrow>
          bindE (dict_get (armature_bones sc) (target_bone t)) (\<lambda>tb.
          bindE (dict_get (armature_bones sc) (target_root t)) (\<lambda>rb.
          bindE (dict_get (dict_bones sc) (target_bone t)) (\<lambda>tb_dict.
          bindE (dict_get (dict_bones sc) (target_root t)) (\<lambda>rb_dict.
            (let tb' =
                   (case delta_o t of
                      None \<Rightarrow> tb
                    | Some d \<Rightarrow>
                        tb\<lparr>rotation_euler :=
                             to_euler lib
                               (compute_rotation_rel_to lib tb rb
                                  (matmul lib d (get_rotation_rel_to lib tb_dict rb_dict)))\<rparr>)
             in Inr (t, sc\<lparr>armature_bones := (armature_bones sc)(target_bone t \<mapsto> tb'),
                           keyframes := keyframes sc @
                             [(target_bone t, ''rotation_euler'', frame,
                               Some (rotation_euler tb'))]\<rparr>))))))
      | TrajectoryTarget \<Rightarrow>
          bindE (dict_get (dict_bones sc) (target_bone t)) (\<lambda>tb.
          bindE (dict_get (dict_bones sc) (target_root t)) (\<lambda>tr.
            (let root_vector = vsub lib (bone_head tr) (bone_tail tr);
                 h0 = (case head t of
                         None \<Rightarrow> matmul lib (inverted lib (bone_matrix tr))
                                   (vadd lib (bone_head tb) root_vector)
                       | Some h \<Rightarrow> h);
                 location = translation_of lib h0;
                 location_inverse = neg_translation_of lib h0;
                 hd_now = matmul lib (inverted lib (bone_matrix tr))
                            (vadd lib (bone_head tb) root_vector)
             in bindE (py_matmul lib (delta_t t) (Some location)) (\<lambda>m1.
                bindE (py_matmul lib m1 (delta_r t)) (\<lambda>m2.
                bindE (py_matmul lib m2 (Some location_inverse)) (\<lambda>m3.
                bindE (py_matmul lib m3 (Some hd_now)) (\<lambda>loc.
                  Inr (t\<lparr>head := Some h0, ctrl_location := loc\<rparr>,
                       sc\<lparr>keyframes := keyframes sc @
                            [(''ctrl'', ''location'', frame, loc)]\<rparr>))))))))
      | RelativeLocRotTarget \<Rightarrow>
          bindE (py_matmul lib (delta_t t) (ctrl_location t)) (\<lambda>loc.
          bindE (py_matmul lib (ctrl_rotation_quaternion t) (delta_o t)) (\<lambda>rot.
            Inr (t\<lparr>ctrl_location := loc, ctrl_rotation_quaternion := rot\<rparr>,
                 sc\<lparr>keyframes := keyframes sc @
                      [(''ctrl'', ''location'', frame, loc),
                       (''ctrl'', ''rotation_quaternion'', frame, rot)]\<rparr>)))
      | HeadRotTarget \<Rightarrow>
          bindE (py_matmul lib (ctrl_rotation_quaternion t) (delta_o t)) (\<lambda>rot.
            Inr (t\<lparr>ctrl_rotation_quaternion := rot\<rparr>,
                 sc\<lparr>keyframes := keyframes sc @
                      [(''ctrl'', ''rotation_quaternion'', frame, rot)]\<rparr>)))"

text \<open>A component of the inflection vector is absent when its three cells are empty.\<close>

definition absent :: "MMSLine \<Rightarrow> string \<Rightarrow> bool" where
  "absent l key =
     (getitem l (key @ ''x'') = Inr CNone \<and> getitem l (key @ ''y'') = Inr CNone \<and>
      getitem l (key @ ''z'') = Inr CNone)"


section \<open>Resampling: \<^verbatim>\<open>player/ArmatureUtils.py\<close> and \<^verbatim>\<open>player/extract.py\<close>\<close>

definition rot_path_name :: "string \<Rightarrow> string" where
  "rot_path_name b = ''pose.bones[\"'' @ b @ ''\"].rotation_euler''"

definition loc_path_name :: "string \<Rightarrow> string" where
  "loc_path_name b = ''pose.bones[\"'' @ b @ ''\"].location''"

text \<open>\<^verbatim>\<open>extract.create_f_curves\<close>: a curve is created where \<^verbatim>\<open>find\<close> returns \<^verbatim>\<open>None\<close>.\<close>

definition ensure_fcurve :: "action \<Rightarrow> string \<Rightarrow> nat \<Rightarrow> action" where
  "ensure_fcurve a dp ix =
     (case fcurves_find a dp ix of
        None \<Rightarrow> a @ [\<lparr>data_path = dp, array_index = ix, keyframe_points = []\<rparr>]
      | Some j \<Rightarrow> a)"

definition create_f_curves_bone :: "string \<Rightarrow> action \<Rightarrow> action" where
  "create_f_curves_bone nm a =
     fold (\<lambda>i a. ensure_fcurve (ensure_fcurve a (rot_path_name nm) i) (loc_path_name nm) i)
       [0 ..< 3] a"

definition create_f_curves :: "string list \<Rightarrow> action \<Rightarrow> action" where
  "create_f_curves bone_names sampled_action = fold create_f_curves_bone bone_names sampled_action"

text \<open>
  \<^verbatim>\<open>extract.set_rotation_and_location\<close>: for the three indices of the rotation path and
  then of the location path, the source curve is evaluated at \<^verbatim>\<open>source_frame\<close> and the value
  inserted at \<^verbatim>\<open>target_frame\<close>. The host's curve evaluation is the parameter \<open>ev\<close>.
\<close>

definition sample_channel ::
  "(fcurve \<Rightarrow> rat \<Rightarrow> rat) \<Rightarrow> action \<Rightarrow> string \<Rightarrow> nat \<Rightarrow> rat \<Rightarrow> rat \<Rightarrow> action \<Rightarrow> error + action" where
  "sample_channel ev source_action path_name i source_frame target_frame target_action =
     (case fcurves_find source_action path_name i of
        None \<Rightarrow> Inl AttributeError
      | Some j \<Rightarrow>
          (let sampled_value = ev (source_action ! j) source_frame in
           case fcurves_find target_action path_name i of
             None \<Rightarrow> Inl AttributeError
           | Some k \<Rightarrow> Inr (insert_at target_action k target_frame sampled_value)))"

fun sample_indices ::
  "(fcurve \<Rightarrow> rat \<Rightarrow> rat) \<Rightarrow> action \<Rightarrow> string \<Rightarrow> rat \<Rightarrow> rat \<Rightarrow> nat list \<Rightarrow> action
     \<Rightarrow> error + action" where
  "sample_indices ev source_action path_name source_frame target_frame [] target_action =
     Inr target_action"
| "sample_indices ev source_action path_name source_frame target_frame (i # is) target_action =
     bindE (sample_channel ev source_action path_name i source_frame target_frame target_action)
       (sample_indices ev source_action path_name source_frame target_frame is)"

definition set_rotation_and_location ::
  "(fcurve \<Rightarrow> rat \<Rightarrow> rat) \<Rightarrow> action \<Rightarrow> string \<Rightarrow> rat \<Rightarrow> action \<Rightarrow> rat \<Rightarrow> error + action" where
  "set_rotation_and_location ev source_action source_bone_name source_frame target_action
       target_frame =
     bindE (sample_indices ev source_action (rot_path_name source_bone_name) source_frame
              target_frame [0 ..< 3] target_action)
       (sample_indices ev source_action (loc_path_name source_bone_name) source_frame
              target_frame [0 ..< 3])"

text \<open>
  \<^verbatim>\<open>ArmatureOperator.resample\<close>. The armature is given by the name of its current action
  and the names of its pose bones. The argument \<^verbatim>\<open>timing\<close> is a pair of frames or a pair
  (duration, flag); the number of samples goes to \<^verbatim>\<open>range\<close>, which raises \<^verbatim>\<open>TypeError\<close> when
  it is not an integer.
\<close>

record armature =
  action_name :: string
  bone_names :: "string list"

datatype timing_arg = Window int int | Duration rat bool

definition as_window :: "timing_arg \<Rightarrow> rat \<times> rat" where
  "as_window ta = (case ta of Window s e \<Rightarrow> (of_int s, of_int e)
                   | Duration d b \<Rightarrow> (d, if b then 1 else 0))"

definition as_duration :: "timing_arg \<Rightarrow> rat \<times> bool" where
  "as_duration ta = (case ta of Window s e \<Rightarrow> (of_int s, e \<noteq> 0) | Duration d b \<Rightarrow> (d, b))"

definition target_frame_count ::
  "(action \<Rightarrow> rat \<times> rat) \<Rightarrow> action \<Rightarrow> timing_arg \<Rightarrow> bool \<Rightarrow> rat" where
  "target_frame_count frame_range act ta use_rel_time =
     (if \<not> use_rel_time
      then (let (start, end_fr) = as_window ta in end_fr - start + 1)
      else (let (duration_or_prop, is_proportion) = as_duration ta in
            if is_proportion
            then (let frame_start = py_int (fst (frame_range act));
                      frame_end = py_int (snd (frame_range act))
                  in of_int \<lceil>duration_or_prop * of_int (frame_end - frame_start) + 1\<rceil>)
            else duration_or_prop))"

fun bones_loop ::
  "(fcurve \<Rightarrow> rat \<Rightarrow> rat) \<Rightarrow> action \<Rightarrow> rat \<Rightarrow> rat \<Rightarrow> string list \<Rightarrow> action \<Rightarrow> error + action" where
  "bones_loop ev source_action sample target_frame [] sampled_action = Inr sampled_action"
| "bones_loop ev source_action sample target_frame (b # bs) sampled_action =
     bindE (set_rotation_and_location ev source_action b sample sampled_action target_frame)
       (bones_loop ev source_action sample target_frame bs)"

fun samples_loop ::
  "(fcurve \<Rightarrow> rat \<Rightarrow> rat) \<Rightarrow> action \<Rightarrow> string list \<Rightarrow> (nat \<times> rat) list \<Rightarrow> action
     \<Rightarrow> error + action" where
  "samples_loop ev source_action bs [] sampled_action = Inr sampled_action"
| "samples_loop ev source_action bs ((frame_number, sample) # rest) sampled_action =
     bindE (bones_loop ev source_action sample (of_nat frame_number + 1) bs sampled_action)
       (samples_loop ev source_action bs rest)"

definition resample ::
  "(fcurve \<Rightarrow> rat \<Rightarrow> rat) \<Rightarrow> (action \<Rightarrow> rat \<times> rat) \<Rightarrow> actions \<Rightarrow> armature \<Rightarrow> MMSLine
     \<Rightarrow> timing_arg \<Rightarrow> bool \<Rightarrow> error + (actions \<times> armature \<times> MMSLine)" where
  "resample ev frame_range acts source_armature mms_line ta use_rel_time =
     (let nm = action_name source_armature in
      bindE (dict_get acts nm) (\<lambda>act.
        (let l1 = mms_line\<lparr>original_frame_range := Some (frame_range act)\<rparr>;
             acts1 = (acts(nm := None))(''old_'' @ nm \<mapsto> act);
             count = target_frame_count frame_range act ta use_rel_time;
             sampled0 = create_f_curves (bone_names source_armature) [];
             frame_start = py_int (fst (frame_range act));
             frame_end = py_int (snd (frame_range act))
         in if count - 1 = 0 then Inl ZeroDivisionError
            else if of_int \<lfloor>count\<rfloor> \<noteq> count then Inl TypeError
            else (let ratio = of_int (frame_end - frame_start) / (count - 1);
                      samples = map (\<lambda>x. of_int frame_start + of_nat x * ratio)
                                  [0 ..< nat \<lfloor>count\<rfloor>]
                  in bindE (samples_loop ev act (bone_names source_armature)
                              (zip [0 ..< length samples] samples) sampled0) (\<lambda>sampled.
                       Inr (acts1(nm \<mapsto> sampled), source_armature,
                            l1\<lparr>resampled_frame_range := Some (frame_range sampled)\<rparr>))))))"


section \<open>Properties\<close>

subsection \<open>Auxiliary facts\<close>

lemma bindE_Inr_iff: "bindE m f = Inr y \<longleftrightarrow> (\<exists>x. m = Inr x \<and> f x = Inr y)"
  by (cases m) (simp_all add: bindE_def)





subsection \<open>Timing of the parsed table\<close>









lemma dict_get_Inr_iff: "dict_get d k = Inr v \<longleftrightarrow> d k = Some v"
  by (auto simp: dict_get_def split: option.splits)











subsection \<open>The compound split\<close>








subsection \<open>The duration column\<close>






subsection \<open>The assertion after each merge step\<close>

lemma merge_step_Inr:
  assumes "merge_step fl fr rel an m gloss l last_end acts = Inr (acts', last')"
  shows "\<exists>start end_fr ret_end.
          merge_window fl rel last_end l = Inr (start, end_fr) \<and>
          merge_op fr an m gloss l start end_fr acts = Inr (acts', ret_end) \<and>
          \<bar>ret_end - end_fr\<bar> \<le> 1 \<and> last' = end_fr"
  using assms
  by (auto simp: merge_step_def bindE_Inr_iff abs_le_iff split: if_splits)

lemma merge_step_checked:
  assumes "merge_window fl rel last_end l = Inr (start, end_fr)"
    and "merge_op fr an m gloss l start end_fr acts = Inr (acts'', ret_end)"
  shows "merge_step fl fr rel an m gloss l last_end acts =
           (if \<bar>ret_end - end_fr\<bar> \<le> 1 then Inr (acts'', end_fr) else Inl AssertionError)"
  using assms by (auto simp: merge_step_def bindE_def abs_le_iff)

lemma hold_returns_end:
  assumes "datatype' l = ''HOLD''"
    and "merge_op fr an m gloss l start end_fr acts = Inr (acts'', ret_end)"
  shows "ret_end = end_fr"
  using assms by (auto simp: merge_op_def perform_hold_def bindE_Inr_iff)

lemma merge_loop_abort:
  assumes "mms_get (mms m) gloss = Inr l" and "ex (path l)"
    and "merge_step fl fr rel an m gloss l last_end acts = Inl e"
  shows "merge_loop fl ex fr rel an m (gloss # rest) last_end acts = Inl e"
  using assms by (simp add: bindE_def)

text \<open>
  C7. One iteration of \<^verbatim>\<open>merge_animation\<close>, for a gloss whose file exists: when it
  completes, the end frame returned by the hold or combine branch is within one frame of
  the expected end, the actions are those the branch produced, and the expected end is
  carried to the next gloss; when the branch returns an end frame further away, the
  iteration is an \<^verbatim>\<open>AssertionError\<close>, which ends the whole loop; the hold branch returns
  the expected end itself.
\<close>

theorem merge_step_tolerance:
  "(merge_step fl fr rel an m gloss l last_end acts = Inr (acts', last') \<longrightarrow>
      (\<exists>start end_fr ret_end.
          merge_window fl rel last_end l = Inr (start, end_fr) \<and>
          merge_op fr an m gloss l start end_fr acts = Inr (acts', ret_end) \<and>
          \<bar>ret_end - end_fr\<bar> \<le> 1 \<and> last' = end_fr)) \<and>
   (merge_window fl rel last_end l = Inr (start, end_fr) \<longrightarrow>
    merge_op fr an m gloss l start end_fr acts = Inr (acts'', ret_end) \<longrightarrow>
      merge_step fl fr rel an m gloss l last_end acts =
        (if \<bar>ret_end - end_fr\<bar> \<le> 1 then Inr (acts'', end_fr) else Inl AssertionError)) \<and>
   (datatype' l = ''HOLD'' \<longrightarrow>
    merge_op fr an m gloss l start end_fr acts = Inr (acts'', ret_end) \<longrightarrow>
      ret_end = end_fr) \<and>
   (mms_get (mms m) gloss = Inr l \<longrightarrow> ex (path l) \<longrightarrow>
    merge_step fl fr rel an m gloss l last_end acts = Inl e \<longrightarrow>
      merge_loop fl ex fr rel an m (gloss # rest) last_end acts = Inl e)"
  using merge_step_Inr merge_step_checked hold_returns_end merge_loop_abort
  by (intro conjI impI) blast+


definition line_A :: MMSLine where
  "line_A = \<lparr>store_index = index_for_column [''name'', ''framestart'', ''frameend''],
     line_data = [CStr ''A'', CStr ''0.0'', CStr ''1.0''], name = ''A'', datatype' = ''signs'',
     output_name = ''0_A'', path = [''/gen'', ''signs'', ''trimmed'', ''A.blend''],
     original_frame_range = None, resampled_frame_range = None\<rparr>"

definition mms_A :: MMS where
  "mms_A = \<lparr>mms = [((0, ''A''), line_A)], glosses = [(0, ''A'')], generated_root = [''/gen''],
     inflections_availability_dict = []\<rparr>"

definition curve_x :: "(rat \<times> rat) list \<Rightarrow> fcurve" where
  "curve_x ks = \<lparr>data_path = ''pose.bones[\"Bone\"].location'', array_index = 0,
     keyframe_points = ks\<rparr>"

definition acts_A :: actions where
  "acts_A = [''final_action'' \<mapsto> [curve_x []],
             ''inflected_0_A'' \<mapsto> [curve_x [(1, 5), (61, 7)]]]"

theorem merge_step_tolerance_witness:
  "(\<exists>acts' last'.
      merge_step float_dec (\<lambda>a. (1, 61)) False ''final_action'' mms_A (0, ''A'') line_A 1 acts_A
        = Inr (acts', last') \<and>
      (\<exists>ret_end. merge_op (\<lambda>a. (1, 61)) ''final_action'' mms_A (0, ''A'') line_A 1 61 acts_A
                   = Inr (acts', ret_end) \<and> \<bar>ret_end - 61\<bar> \<le> 1) \<and> last' = 61) \<and>
   merge_step float_dec (\<lambda>a. (1, 100)) False ''final_action'' mms_A (0, ''A'') line_A 1 acts_A
     = Inl AssertionError"
proof -
  let ?ok = "merge_step float_dec (\<lambda>a. (1, 61)) False ''final_action'' mms_A (0, ''A'') line_A 1 acts_A"
  have w: "merge_window float_dec False 1 line_A = Inr (1, 61)" by code_simp
  have "\<not> isl ?ok" by code_simp
  then obtain acts' last' where ok: "?ok = Inr (acts', last')"
    by (cases ?ok) auto
  from merge_step_tolerance [THEN conjunct1, rule_format, OF ok] w
  have a: "(\<exists>ret_end. merge_op (\<lambda>a. (1, 61)) ''final_action'' mms_A (0, ''A'') line_A 1 61 acts_A
                   = Inr (acts', ret_end) \<and> \<bar>ret_end - 61\<bar> \<le> 1) \<and> last' = 61"
    by auto
  have "\<not> isl (merge_op (\<lambda>a. (1, 100)) ''final_action'' mms_A (0, ''A'') line_A 1 61 acts_A)"
    by code_simp
  moreover have "map_sum id snd
      (merge_op (\<lambda>a. (1, 100)) ''final_action'' mms_A (0, ''A'') line_A 1 61 acts_A) = Inr 101"
    by code_simp
  ultimately obtain acts'' where
    op: "merge_op (\<lambda>a. (1, 100)) ''final_action'' mms_A (0, ''A'') line_A 1 61 acts_A
           = Inr (acts'', 101)"
    by (cases "merge_op (\<lambda>a. (1, 100)) ''final_action'' mms_A (0, ''A'') line_A 1 61 acts_A")
       auto
  from merge_step_tolerance [THEN conjunct2, THEN conjunct1, rule_format, OF w op]
  have b: "merge_step float_dec (\<lambda>a. (1, 100)) False ''final_action'' mms_A (0, ''A'') line_A 1
             acts_A = Inl AssertionError"
    by simp
  from ok a b show ?thesis by blast
qed

subsection \<open>The source of a hold\<close>

text \<open>
  C8. \<^verbatim>\<open>merge_animation\<close> takes the source of a HOLD from the position
  \<^verbatim>\<open>gloss[0] - 1\<close> of the list sorted by start frame, where \<^verbatim>\<open>gloss[0]\<close> is the index the
  row got before sorting. For the rows A (0 s), HOLD (2 s), B (1 s) the sorted order is
  A, B, HOLD: the path resolution gives the HOLD the file of B, the entry before it, and
  the merge holds the last pose of A.
\<close>

definition table_hold_moved :: "string list list" where
  "table_hold_moved =
     [[''name'', ''framestart'', ''frameend''],
      [''A'', ''0.0'', ''1.0''],
      [''<HOLD>'', ''2.0'', ''3.0''],
      [''B'', ''1.0'', ''2.0'']]"

theorem hold_source_not_previous:
  "(case parse float_dec table_hold_moved [''/gen''] of
      Inr m \<Rightarrow>
        (case find_mocap_data_files (\<lambda>p. True) m of
           Inr m' \<Rightarrow>
             Some (glosses m', hold_source m' (1, ''<HOLD>''),
                   map (\<lambda>x. (datatype' (snd x), path (snd x), output_name (snd x))) (mms m'))
         | Inl e \<Rightarrow> None)
    | Inl e \<Rightarrow> None)
   = Some ([(0, ''A''), (2, ''B''), (1, ''<HOLD>'')],
           Inr ''inflected_0_A'',
           [(''signs'', [''/gen'', ''signs'', ''trimmed'', ''A.blend''], ''0_A''),
            (''signs'', [''/gen'', ''signs'', ''trimmed'', ''B.blend''], ''2_B''),
            (''HOLD'', [''/gen'', ''signs'', ''trimmed'', ''B.blend''], ''1_<HOLD>'')])"
  by code_simp

subsection \<open>Channels and keyframes\<close>

lemma fcurves_find_Some:
  "fcurves_find a dp ix = Some j \<Longrightarrow> j < length a \<and> chan (a ! j) = (dp, ix)"
  by (induction a arbitrary: j) (auto simp: chan_def split: if_splits)

lemma fcurves_find_None: "fcurves_find a dp ix = None \<longleftrightarrow> (dp, ix) \<notin> chan ` set a"
  by (induction a) (auto simp: chan_def)

lemma fcurves_find_cong:
  "map chan a' = map chan a \<Longrightarrow> fcurves_find a' dp ix = fcurves_find a dp ix"
proof (induction a arbitrary: a')
  case Nil
  then show ?case by simp
next
  case (Cons c cs)
  then obtain c' cs' where a': "a' = c' # cs'" "chan c' = chan c" "map chan cs' = map chan cs"
    by (cases a') auto
  from Cons.IH [OF a'(3)] have "fcurves_find cs' dp ix = fcurves_find cs dp ix" .
  with a'(1,2) show ?case by (simp add: chan_def)
qed

lemma chan_insert_at: "map chan (insert_at a j f v) = map chan a"
proof (cases "j < length a")
  case True
  then show ?thesis
    by (auto simp: insert_at_def chan_def nth_list_update intro!: nth_equalityI)
next
  case False
  then have "a[j := (a ! j)\<lparr>keyframe_points := kf_insert f v (keyframe_points (a ! j))\<rparr>] = a"
    by (intro list_update_beyond) simp
  then show ?thesis by (simp add: insert_at_def)
qed

lemma length_insert_at: "length (insert_at a j f v) = length a"
  by (simp add: insert_at_def)

lemma curve_of_insert_at:
  assumes "fcurves_find a dp ix = Some j"
  shows "curve_of (insert_at a j f v) c =
           (if c = (dp, ix) then Some (kf_insert f v (keyframe_points (a ! j))) else curve_of a c)"
proof -
  from assms have j: "j < length a" "chan (a ! j) = (dp, ix)" by (auto dest: fcurves_find_Some)
  have same: "fcurves_find (insert_at a j f v) (fst c) (snd c) = fcurves_find a (fst c) (snd c)"
    by (rule fcurves_find_cong) (rule chan_insert_at)
  show ?thesis
  proof (cases "c = (dp, ix)")
    case True
    with assms j same show ?thesis by (simp add: curve_of_def insert_at_def)
  next
    case False
    show ?thesis
    proof (cases "fcurves_find a (fst c) (snd c)")
      case None
      with same False show ?thesis by (simp add: curve_of_def)
    next
      case (Some k)
      then have "chan (a ! k) = c" by (auto dest: fcurves_find_Some)
      with j False have "k \<noteq> j" by auto
      with Some same False show ?thesis by (simp add: curve_of_def insert_at_def)
    qed
  qed
qed



lemma py_index_last:
  "py_index ks (int (length ks) - 1) = (if ks = [] then Inl IndexError else Inr (last ks))"
  by (cases ks rule: rev_cases) (auto simp: py_index_def nth_append)

lemma hold_fcurve_Inr_iff:
  "hold_fcurve s e sc tgt = Inr t \<longleftrightarrow>
     keyframe_points sc \<noteq> [] \<and>
     (\<exists>j. fcurves_find tgt (data_path sc) (array_index sc) = Some j \<and>
          t = insert_at (insert_at tgt j s (snd (last (keyframe_points sc))))
                j e (snd (last (keyframe_points sc))))"
  by (auto simp: hold_fcurve_def Let_def py_index_last bindE_def split: option.splits)

lemma hold_fcurve_effect:
  assumes "hold_fcurve s e sc tgt = Inr t"
  shows "map chan t = map chan tgt"
    and "\<exists>old. curve_of tgt (chan sc) = Some old \<and>
           curve_of t (chan sc) =
             Some (kf_insert e (snd (last (keyframe_points sc)))
                    (kf_insert s (snd (last (keyframe_points sc))) old))"
    and "c \<noteq> chan sc \<Longrightarrow> curve_of t c = curve_of tgt c"
proof -
  let ?v = "snd (last (keyframe_points sc))"
  from assms obtain j where j: "fcurves_find tgt (data_path sc) (array_index sc) = Some j"
    and t: "t = insert_at (insert_at tgt j s ?v) j e ?v"
    by (auto simp: hold_fcurve_Inr_iff)
  have j': "fcurves_find (insert_at tgt j s ?v) (data_path sc) (array_index sc) = Some j"
    using j fcurves_find_cong [OF chan_insert_at] by simp
  show "map chan t = map chan tgt" by (simp add: t chan_insert_at)
  have jl: "j < length tgt" using j by (auto dest: fcurves_find_Some)
  have old: "curve_of tgt (chan sc) = Some (keyframe_points (tgt ! j))"
    using j by (simp add: curve_of_def chan_def)
  have mid: "curve_of (insert_at tgt j s ?v) (chan sc) = Some (kf_insert s ?v (keyframe_points (tgt ! j)))"
    using curve_of_insert_at [OF j, of s ?v "chan sc"] by (simp add: chan_def)
  have midj: "keyframe_points (insert_at tgt j s ?v ! j) = kf_insert s ?v (keyframe_points (tgt ! j))"
    using jl by (simp add: insert_at_def)
  show "\<exists>old. curve_of tgt (chan sc) = Some old \<and>
           curve_of t (chan sc) = Some (kf_insert e ?v (kf_insert s ?v old))"
    using old curve_of_insert_at [OF j', of e ?v "chan sc"] midj
    by (simp add: t chan_def)
  show "curve_of t c = curve_of tgt c" if "c \<noteq> chan sc"
    using that curve_of_insert_at [OF j', of e ?v c] curve_of_insert_at [OF j, of s ?v c]
    by (simp add: t chan_def)
qed

lemma hold_loop_chan:
  "hold_loop s e src tgt = Inr t \<Longrightarrow> map chan t = map chan tgt"
proof (induction src arbitrary: tgt)
  case Nil
  then show ?case by simp
next
  case (Cons sc src)
  then obtain t1 where "hold_fcurve s e sc tgt = Inr t1" "hold_loop s e src t1 = Inr t"
    by (auto simp: bindE_Inr_iff)
  with Cons.IH [of t1] hold_fcurve_effect(1) [of s e sc tgt t1] show ?case by simp
qed




subsection \<open>Hold\<close>




subsection \<open>The channels of the target\<close>

lemma chan_set: "map chan a = map chan b \<Longrightarrow> chan ` set a = chan ` set b"
  by (metis set_map)

lemma fold_insert_chan:
  "map chan (fold (\<lambda>k a. insert_at a j (g k) (h k)) ks a) = map chan a"
  by (induction ks arbitrary: a) (simp_all add: chan_insert_at)

lemma combine_fcurve_cases:
  "combine_fcurve s sc tgt =
     (if chan sc \<in> chan ` set tgt
      then Inr (fold (\<lambda>k a. insert_at a (the (fcurves_find tgt (data_path sc) (array_index sc)))
                             (fst k + s - 1) (snd k)) (keyframe_points sc) tgt)
      else Inl AttributeError)"
  using fcurves_find_None [of tgt "data_path sc" "array_index sc"]
  by (auto simp: combine_fcurve_def chan_def split: option.splits)

lemma combine_loop_ok:
  "\<forall>sc \<in> set src. chan sc \<in> chan ` set tgt \<Longrightarrow>
     \<exists>t. combine_loop s src tgt = Inr t \<and> map chan t = map chan tgt"
proof (induction src arbitrary: tgt)
  case Nil
  then show ?case by simp
next
  case (Cons x xs)
  let ?t1 = "fold (\<lambda>k a. insert_at a (the (fcurves_find tgt (data_path x) (array_index x)))
                             (fst k + s - 1) (snd k)) (keyframe_points x) tgt"
  have c1: "map chan ?t1 = map chan tgt" by (rule fold_insert_chan)
  then have "chan ` set ?t1 = chan ` set tgt" by (rule chan_set)
  with Cons.prems have "\<forall>sc \<in> set xs. chan sc \<in> chan ` set ?t1" by simp
  from Cons.IH [OF this] c1 Cons.prems show ?case
    by (simp add: combine_fcurve_cases bindE_def)
qed

lemma combine_loop_fail:
  "sc \<in> set src \<Longrightarrow> chan sc \<notin> chan ` set tgt \<Longrightarrow> combine_loop s src tgt = Inl AttributeError"
proof (induction src arbitrary: tgt)
  case Nil
  then show ?case by simp
next
  case (Cons x xs)
  let ?t1 = "fold (\<lambda>k a. insert_at a (the (fcurves_find tgt (data_path x) (array_index x)))
                             (fst k + s - 1) (snd k)) (keyframe_points x) tgt"
  have "map chan ?t1 = map chan tgt" by (rule fold_insert_chan)
  then have c1: "chan ` set ?t1 = chan ` set tgt" by (rule chan_set)
  show ?case
  proof (cases "chan x \<in> chan ` set tgt")
    case False
    then show ?thesis by (simp add: combine_fcurve_cases bindE_def)
  next
    case True
    with Cons.prems have "sc \<in> set xs" by auto
    from Cons.IH [OF this, of ?t1] Cons.prems(2) c1 True show ?thesis
      by (simp add: combine_fcurve_cases bindE_def)
  qed
qed

lemma hold_fcurve_cases:
  "hold_fcurve s e sc tgt =
     (if keyframe_points sc = [] then Inl IndexError
      else if chan sc \<notin> chan ` set tgt then Inl AttributeError
      else Inr (insert_at
                 (insert_at tgt (the (fcurves_find tgt (data_path sc) (array_index sc))) s
                    (snd (last (keyframe_points sc))))
                 (the (fcurves_find tgt (data_path sc) (array_index sc))) e
                 (snd (last (keyframe_points sc)))))"
  using fcurves_find_None [of tgt "data_path sc" "array_index sc"]
  by (auto simp: hold_fcurve_def Let_def py_index_last bindE_def chan_def split: option.splits)

lemma hold_loop_ok:
  "\<forall>sc \<in> set src. chan sc \<in> chan ` set tgt \<and> keyframe_points sc \<noteq> [] \<Longrightarrow>
     \<exists>t. hold_loop s e src tgt = Inr t \<and> map chan t = map chan tgt"
proof (induction src arbitrary: tgt)
  case Nil
  then show ?case by simp
next
  case (Cons x xs)
  from Cons.prems obtain t1 where t1: "hold_fcurve s e x tgt = Inr t1"
    by (auto simp: hold_fcurve_cases)
  then have c1: "map chan t1 = map chan tgt" by (rule hold_fcurve_effect(1))
  then have "chan ` set t1 = chan ` set tgt" by (rule chan_set)
  with Cons.prems have "\<forall>sc \<in> set xs. chan sc \<in> chan ` set t1 \<and> keyframe_points sc \<noteq> []"
    by simp
  from Cons.IH [OF this] c1 t1 show ?case by (simp add: bindE_def)
qed

lemma hold_loop_fail:
  "sc \<in> set src \<Longrightarrow> chan sc \<notin> chan ` set tgt \<Longrightarrow>
     hold_loop s e src tgt = Inl AttributeError \<or> hold_loop s e src tgt = Inl IndexError"
proof (induction src arbitrary: tgt)
  case Nil
  then show ?case by simp
next
  case (Cons x xs)
  show ?case
  proof (cases "hold_fcurve s e x tgt")
    case (Inl err)
    then have "err = AttributeError \<or> err = IndexError"
      by (auto simp: hold_fcurve_cases split: if_splits)
    with Inl show ?thesis by (auto simp: bindE_def)
  next
    case (Inr t1)
    then have "map chan t1 = map chan tgt" by (rule hold_fcurve_effect(1))
    then have c1: "chan ` set t1 = chan ` set tgt" by (rule chan_set)
    from Inr have "chan x \<in> chan ` set tgt" by (auto simp: hold_fcurve_cases split: if_splits)
    with Cons.prems have "sc \<in> set xs" by auto
    from Cons.IH [OF this, of t1] Cons.prems(2) c1 Inr show ?thesis
      by (simp add: bindE_def)
  qed
qed

lemma fcurves_new_chan:
  "fcurves_new a dp ix = Inr t \<Longrightarrow> map chan t = map chan a @ [(dp, ix)]"
  by (auto simp: fcurves_new_def chan_def split: if_splits)

lemma new_fcurves_loop_chan:
  "new_fcurves_loop src tgt = Inr t \<Longrightarrow> map chan t = map chan tgt @ map chan src"
proof (induction src arbitrary: tgt)
  case Nil
  then show ?case by simp
next
  case (Cons x xs)
  then obtain t1 where a: "fcurves_new tgt (data_path x) (array_index x) = Inr t1"
    "new_fcurves_loop xs t1 = Inr t"
    by (auto simp: bindE_Inr_iff)
  have "chan x = (data_path x, array_index x)" by (simp add: chan_def)
  with Cons.IH [OF a(2)] fcurves_new_chan [OF a(1)] show ?case by simp
qed

lemma create_new_fcurves_chan:
  assumes c: "create_new_fcurves acts an m None = Inr acts'" and e: "acts an = Some []"
  shows "\<exists>g0 gloss first t0.
           py_index (glosses m) 0 = Inr g0 \<and> mms_get (mms m) g0 = Inr gloss \<and>
           acts (''inflected_'' @ output_name gloss) = Some first \<and>
           acts' = acts(an \<mapsto> t0) \<and> map chan t0 = map chan first"
proof -
  define X where "X = bindE (py_index (glosses m) 0) (\<lambda>g0. bindE (mms_get (mms m) g0)
           (\<lambda>gloss. Inr (''inflected_'' @ output_name gloss)))"
  from c have "bindE X (\<lambda>n. bindE (dict_get acts n) (\<lambda>act.
       if length act = 0 then Inl AssertionError
       else bindE (dict_get acts an) (\<lambda>target_action.
            bindE (new_fcurves_loop act target_action) (\<lambda>t. Inr (acts(an \<mapsto> t)))))) = Inr acts'"
    unfolding create_new_fcurves_def X_def by simp
  then obtain nm where nm0: "X = Inr nm"
    and c2: "bindE (dict_get acts nm) (\<lambda>act.
       if length act = 0 then Inl AssertionError
       else bindE (dict_get acts an) (\<lambda>target_action.
            bindE (new_fcurves_loop act target_action) (\<lambda>t. Inr (acts(an \<mapsto> t))))) = Inr acts'"
    by (cases X) (simp_all add: bindE_def)
  then obtain act where act: "dict_get acts nm = Inr act"
    and rest: "(if length act = 0 then Inl AssertionError
       else bindE (dict_get acts an) (\<lambda>target_action.
            bindE (new_fcurves_loop act target_action) (\<lambda>t. Inr (acts(an \<mapsto> t))))) = Inr acts'"
    by (cases "dict_get acts nm") (simp_all add: bindE_def)
  note nm = nm0 [unfolded X_def]
  from nm obtain g0 gloss where g: "py_index (glosses m) 0 = Inr g0"
    "mms_get (mms m) g0 = Inr gloss" "nm = ''inflected_'' @ output_name gloss"
    by (auto simp: bindE_Inr_iff)
  from rest e obtain t0 where t0: "new_fcurves_loop act [] = Inr t0" "acts' = acts(an \<mapsto> t0)"
    by (auto simp: bindE_Inr_iff dict_get_def split: if_splits)
  from new_fcurves_loop_chan [OF t0(1)] have "map chan t0 = map chan act" by simp
  with g act t0 show ?thesis by (auto simp: dict_get_Inr_iff)
qed

text \<open>
  C10. With the source and the target action in \<^verbatim>\<open>bpy.data.actions\<close>: when every
  channel of the source has an f-curve in the target, \<^verbatim>\<open>combine_animation\<close> returns, and so
  does \<^verbatim>\<open>perform_hold\<close> if moreover no source curve is empty, and the target keeps its
  channels; when some channel of the source has no f-curve in the target,
  \<^verbatim>\<open>combine_animation\<close> raises \<^verbatim>\<open>AttributeError\<close> and \<^verbatim>\<open>perform_hold\<close> raises
  \<^verbatim>\<open>AttributeError\<close> or \<^verbatim>\<open>IndexError\<close>; and \<^verbatim>\<open>create_new_fcurves\<close>, called on an empty
  target without an action name, gives the target exactly the channels of the inflected
  action of the first gloss.
\<close>

theorem merge_channel_precondition:
  assumes src: "acts source_animation = Some source_action"
    and tgt: "acts target_animation = Some target_action"
  shows
   "((\<forall>sc \<in> set source_action. chan sc \<in> chan ` set target_action) \<longrightarrow>
       (\<exists>t. combine_animation fr acts target_animation source_animation start =
               Inr (acts(target_animation \<mapsto> t),
                    of_int (py_int (snd (fr source_action))) + start) \<and>
            map chan t = map chan target_action)) \<and>
    ((\<forall>sc \<in> set source_action.
         chan sc \<in> chan ` set target_action \<and> keyframe_points sc \<noteq> []) \<longrightarrow>
       (\<exists>t. perform_hold acts target_animation source_animation start end_fr =
               Inr (acts(target_animation \<mapsto> t), end_fr) \<and>
            map chan t = map chan target_action)) \<and>
    ((\<exists>sc \<in> set source_action. chan sc \<notin> chan ` set target_action) \<longrightarrow>
       combine_animation fr acts target_animation source_animation start = Inl AttributeError \<and>
       (perform_hold acts target_animation source_animation start end_fr = Inl AttributeError \<or>
        perform_hold acts target_animation source_animation start end_fr = Inl IndexError)) \<and>
    (target_action = [] \<longrightarrow>
     create_new_fcurves acts target_animation m None = Inr acts' \<longrightarrow>
       (\<exists>g0 gloss first t0.
           py_index (glosses m) 0 = Inr g0 \<and> mms_get (mms m) g0 = Inr gloss \<and>
           acts (''inflected_'' @ output_name gloss) = Some first \<and>
           acts' = acts(target_animation \<mapsto> t0) \<and> map chan t0 = map chan first))"
proof (intro conjI impI)
  assume "\<forall>sc \<in> set source_action. chan sc \<in> chan ` set target_action"
  from combine_loop_ok [OF this, of start] obtain t where
    t: "combine_loop start source_action target_action = Inr t"
       "map chan t = map chan target_action" by blast
  show "\<exists>t. combine_animation fr acts target_animation source_animation start =
               Inr (acts(target_animation \<mapsto> t),
                    of_int (py_int (snd (fr source_action))) + start) \<and>
            map chan t = map chan target_action"
    using t src tgt
    by (intro exI [of _ t])
       (simp add: combine_animation_def bindE_def dict_get_def split: prod.splits)
next
  assume "\<forall>sc \<in> set source_action.
         chan sc \<in> chan ` set target_action \<and> keyframe_points sc \<noteq> []"
  from hold_loop_ok [OF this, of start end_fr] obtain t where
    t: "hold_loop start end_fr source_action target_action = Inr t"
       "map chan t = map chan target_action" by blast
  show "\<exists>t. perform_hold acts target_animation source_animation start end_fr =
               Inr (acts(target_animation \<mapsto> t), end_fr) \<and>
            map chan t = map chan target_action"
    using t src tgt
    by (intro exI [of _ t]) (simp add: perform_hold_def bindE_def dict_get_def)
next
  assume "\<exists>sc \<in> set source_action. chan sc \<notin> chan ` set target_action"
  then obtain sc where sc: "sc \<in> set source_action" "chan sc \<notin> chan ` set target_action"
    by blast
  from combine_loop_fail [OF sc, of start] src tgt
  show "combine_animation fr acts target_animation source_animation start = Inl AttributeError"
    by (auto simp: combine_animation_def bindE_def dict_get_def split: prod.splits)
  from hold_loop_fail [OF sc, of start end_fr] src tgt
  show "perform_hold acts target_animation source_animation start end_fr = Inl AttributeError \<or>
        perform_hold acts target_animation source_animation start end_fr = Inl IndexError"
    by (auto simp: perform_hold_def bindE_def dict_get_def)
next
  assume "target_action = []"
    and "create_new_fcurves acts target_animation m None = Inr acts'"
  with tgt create_new_fcurves_chan [of acts target_animation m acts']
  show "\<exists>g0 gloss first t0.
           py_index (glosses m) 0 = Inr g0 \<and> mms_get (mms m) g0 = Inr gloss \<and>
           acts (''inflected_'' @ output_name gloss) = Some first \<and>
           acts' = acts(target_animation \<mapsto> t0) \<and> map chan t0 = map chan first"
    by simp
qed


definition acts_B :: actions where
  "acts_B = [''final_action'' \<mapsto> [curve_x []],
             ''inflected_1_B'' \<mapsto>
               [\<lparr>data_path = ''pose.bones[\"Bone\"].rotation_euler'', array_index = 2,
                 keyframe_points = [(1, 2)]\<rparr>]]"

theorem merge_channel_precondition_witness:
  "(\<exists>t. combine_animation (\<lambda>a. (1, 61)) acts_A ''final_action'' ''inflected_0_A'' 1 =
          Inr (acts_A(''final_action'' \<mapsto> t), 62) \<and> map chan t = map chan [curve_x []]) \<and>
   combine_animation (\<lambda>a. (1, 61)) acts_B ''final_action'' ''inflected_1_B'' 1
     = Inl AttributeError"
proof -
  have srcA: "acts_A ''inflected_0_A'' = Some [curve_x [(1, 5), (61, 7)]]"
    by (simp add: acts_A_def)
  have tgtA: "acts_A ''final_action'' = Some [curve_x []]" by (simp add: acts_A_def)
  have okA: "\<forall>sc \<in> set [curve_x [(1, 5), (61, 7)]]. chan sc \<in> chan ` set [curve_x []]"
    by (simp add: chan_def curve_x_def)
  from merge_channel_precondition [where fr = "\<lambda>a. (1, 61)" and start = 1,
      OF srcA tgtA, THEN conjunct1, THEN mp, OF okA]
  have a: "\<exists>t. combine_animation (\<lambda>a. (1, 61)) acts_A ''final_action'' ''inflected_0_A'' 1 =
          Inr (acts_A(''final_action'' \<mapsto> t), 62) \<and> map chan t = map chan [curve_x []]"
    by (simp add: py_int_def)
  let ?cb = "\<lparr>data_path = ''pose.bones[\"Bone\"].rotation_euler'', array_index = 2,
                 keyframe_points = [(1, 2)]\<rparr>"
  have srcB: "acts_B ''inflected_1_B'' = Some [?cb]" by (simp add: acts_B_def)
  have tgtB: "acts_B ''final_action'' = Some [curve_x []]" by (simp add: acts_B_def)
  have noB: "\<exists>sc \<in> set [?cb]. chan sc \<notin> chan ` set [curve_x []]"
    by (simp add: chan_def curve_x_def)
  from merge_channel_precondition [where fr = "\<lambda>a. (1, 61)" and start = 1,
      OF srcB tgtB, THEN conjunct2, THEN conjunct2, THEN conjunct1, THEN mp, OF noB]
  have b: "combine_animation (\<lambda>a. (1, 61)) acts_B ''final_action'' ''inflected_1_B'' 1
     = Inl AttributeError"
    by simp
  from a b show ?thesis by (rule conjI)
qed

subsection \<open>Path resolution\<close>
























subsection \<open>Absent inflection vectors\<close>

lemma absent_handle_none: "absent l key \<Longrightarrow> handle_none fl l key = Inr None"
  by (simp add: absent_def handle_none_def bindE_def truthy_def)

lemma py_matmul_None: "py_matmul lib None b = Inl TypeError" "py_matmul lib a None = Inl TypeError"
  by (auto simp: py_matmul_def split: option.splits)

text \<open>
  C1. A row whose relevant component of the inflection vector is absent makes the
  accessor return \<^verbatim>\<open>None\<close>, and the target stores that \<^verbatim>\<open>None\<close> as its delta instead of
  the identity. For a \<^verbatim>\<open>TrajectoryTarget\<close>, \<^verbatim>\<open>init_from_mms\<close> itself raises \<^verbatim>\<open>TypeError\<close>
  (\<^verbatim>\<open>None @ None\<close>); for a \<^verbatim>\<open>HeadRotTarget\<close> and a \<^verbatim>\<open>RelativeLocRotTarget\<close> the
  initialisation returns and the next \<^verbatim>\<open>inflect\<close> raises \<^verbatim>\<open>TypeError\<close>. Only
  \<^verbatim>\<open>LocalRotationTarget.inflect\<close> tests the delta against \<^verbatim>\<open>None\<close>: it leaves the rotation
  of the bone as it is and inserts its keyframe.
\<close>

theorem absent_vector_inflection:
  "(target_class t = TrajectoryTarget \<longrightarrow>
      absent l (dominance t @ ''handreloc'') \<longrightarrow> absent l (dominance t @ ''handreloca'') \<longrightarrow>
      absent l (dominance t @ ''handrelocs'') \<longrightarrow>
        init_from_mms lib fl l t = Inl TypeError) \<and>
   (target_class t = HeadRotTarget \<longrightarrow> absent l ''headrot'' \<longrightarrow>
        init_from_mms lib fl l t = Inr (t\<lparr>delta_o := None\<rparr>) \<and>
        inflect lib frame (t\<lparr>delta_o := None\<rparr>) sc = Inl TypeError) \<and>
   (target_class t = RelativeLocRotTarget \<longrightarrow> inflection_type t = ''torso'' \<longrightarrow>
      absent l ''torsoreloc'' \<longrightarrow> absent l ''torsoreloca'' \<longrightarrow>
        init_from_mms lib fl l t = Inr (t\<lparr>delta_t := None, delta_o := None\<rparr>) \<and>
        inflect lib frame (t\<lparr>delta_t := None, delta_o := None\<rparr>) sc = Inl TypeError) \<and>
   (target_class t = RelativeLocRotTarget \<longrightarrow> inflection_type t = ''shoulder'' \<longrightarrow>
      absent l (dominance t @ ''shoulderreloc'') \<longrightarrow>
        init_from_mms lib fl l t = Inr (t\<lparr>delta_t := None\<rparr>) \<and>
        inflect lib frame (t\<lparr>delta_t := None\<rparr>) sc = Inl TypeError) \<and>
   (target_class t = LocalRotationTarget \<longrightarrow> absent l (dominance t @ ''handrot'') \<longrightarrow>
        init_from_mms lib fl l t = Inr (t\<lparr>delta_o := None\<rparr>) \<and>
        (\<forall>tb rb tbd rbd.
           armature_bones sc (target_bone t) = Some tb \<longrightarrow>
           armature_bones sc (target_root t) = Some rb \<longrightarrow>
           dict_bones sc (target_bone t) = Some tbd \<longrightarrow>
           dict_bones sc (target_root t) = Some rbd \<longrightarrow>
             inflect lib frame (t\<lparr>delta_o := None\<rparr>) sc =
               Inr (t\<lparr>delta_o := None\<rparr>,
                    sc\<lparr>armature_bones := (armature_bones sc)(target_bone t \<mapsto> tb),
                       keyframes := keyframes sc @
                         [(target_bone t, ''rotation_euler'', frame, Some (rotation_euler tb))]\<rparr>)))"
proof (intro conjI impI allI)
  assume "target_class t = TrajectoryTarget" "absent l (dominance t @ ''handreloc'')"
    "absent l (dominance t @ ''handreloca'')" "absent l (dominance t @ ''handrelocs'')"
  then show "init_from_mms lib fl l t = Inl TypeError"
    by (simp add: init_from_mms_def translation_def traj_rotation_def scale_mms_def
        absent_handle_none bindE_def py_matmul_None)
next
  assume a: "target_class t = HeadRotTarget" "absent l ''headrot''"
  then show "init_from_mms lib fl l t = Inr (t\<lparr>delta_o := None\<rparr>)"
    by (simp add: init_from_mms_def head_rot_def absent_handle_none bindE_def)
  from a show "inflect lib frame (t\<lparr>delta_o := None\<rparr>) sc = Inl TypeError"
    by (simp add: inflect_def bindE_def py_matmul_None)
next
  assume a: "target_class t = RelativeLocRotTarget" "inflection_type t = ''torso''"
    "absent l ''torsoreloc''" "absent l ''torsoreloca''"
  then show "init_from_mms lib fl l t = Inr (t\<lparr>delta_t := None, delta_o := None\<rparr>)"
    by (simp add: init_from_mms_def torso_shift_def torso_rot_def absent_handle_none bindE_def)
  from a show "inflect lib frame (t\<lparr>delta_t := None, delta_o := None\<rparr>) sc = Inl TypeError"
    by (simp add: inflect_def bindE_def py_matmul_None)
next
  assume a: "target_class t = RelativeLocRotTarget" "inflection_type t = ''shoulder''"
    "absent l (dominance t @ ''shoulderreloc'')"
  then show "init_from_mms lib fl l t = Inr (t\<lparr>delta_t := None\<rparr>)"
    by (simp add: init_from_mms_def shoulder_shift_def absent_handle_none bindE_def)
  from a show "inflect lib frame (t\<lparr>delta_t := None\<rparr>) sc = Inl TypeError"
    by (simp add: inflect_def bindE_def py_matmul_None)
next
  assume a: "target_class t = LocalRotationTarget" "absent l (dominance t @ ''handrot'')"
  then show "init_from_mms lib fl l t = Inr (t\<lparr>delta_o := None\<rparr>)"
    by (simp add: init_from_mms_def hand_orientation_def absent_handle_none bindE_def)
  fix tb rb tbd rbd
  assume "armature_bones sc (target_bone t) = Some tb" "armature_bones sc (target_root t) = Some rb"
    "dict_bones sc (target_bone t) = Some tbd" "dict_bones sc (target_root t) = Some rbd"
  with a show "inflect lib frame (t\<lparr>delta_o := None\<rparr>) sc =
               Inr (t\<lparr>delta_o := None\<rparr>,
                    sc\<lparr>armature_bones := (armature_bones sc)(target_bone t \<mapsto> tb),
                       keyframes := keyframes sc @
                         [(target_bone t, ''rotation_euler'', frame, Some (rotation_euler tb))]\<rparr>)"
    by (simp add: inflect_def bindE_def dict_get_def)
qed

definition lib_int :: "int mathutils" where
  "lib_int = \<lparr>identity4 = 1, identity_quat = 1,
     euler_matrix4 = (\<lambda>(x, y, z). \<lfloor>x\<rfloor>), euler_quaternion = (\<lambda>(x, y, z). \<lfloor>x\<rfloor>),
     translation4 = (\<lambda>(x, y, z). \<lfloor>x\<rfloor>), scale4 = (\<lambda>(x, y, z). \<lfloor>x\<rfloor>),
     matmul = (*), inverted = (\<lambda>x. x), to_quaternion = (\<lambda>x. x), to_euler = (\<lambda>x. x),
     vadd = (+), vsub = (-), translation_of = (\<lambda>x. x), neg_translation_of = (\<lambda>x. - x)\<rparr>"

definition line_no_inflection :: MMSLine where
  "line_no_inflection =
     \<lparr>store_index = index_for_column
        [''name'', ''framestart'', ''frameend'', ''domhandrelocx'', ''domhandrelocy'',
         ''domhandrelocz'', ''domhandrelocax'', ''domhandrelocay'', ''domhandrelocaz'',
         ''domhandrelocsx'', ''domhandrelocsy'', ''domhandrelocsz'',
         ''headrotx'', ''headroty'', ''headrotz''],
      line_data = [CStr ''A'', CStr ''0.0'', CStr ''1.0'', CNone, CNone, CNone, CNone, CNone,
                   CNone, CNone, CNone, CNone, CNone, CNone, CNone],
      name = ''A'', datatype' = ''signs'', output_name = ''0_A'', path = [''/none''],
      original_frame_range = None, resampled_frame_range = None\<rparr>"

theorem absent_vector_inflection_witness:
  "init_from_mms lib_int float_dec line_no_inflection
     (new_target lib_int TrajectoryTarget ''dom'' ''Bone_R_Hand'' ''Bone_R_Clavicle'' ''hand'' 2 3)
     = Inl TypeError \<and>
   init_from_mms lib_int float_dec line_no_inflection
     (new_target lib_int HeadRotTarget ''dom'' ''Bone_Head'' ''Bone_Neck'' ''head'' 2 3)
     = Inr ((new_target lib_int HeadRotTarget ''dom'' ''Bone_Head'' ''Bone_Neck'' ''head'' 2 3)
              \<lparr>delta_o := None\<rparr>) \<and>
   inflect lib_int 1
     ((new_target lib_int HeadRotTarget ''dom'' ''Bone_Head'' ''Bone_Neck'' ''head'' 2 3)
        \<lparr>delta_o := None\<rparr>)
     \<lparr>armature_bones = Map.empty, dict_bones = Map.empty, keyframes = []\<rparr>
     = Inl TypeError"
proof -
  let ?tt = "new_target lib_int TrajectoryTarget ''dom'' ''Bone_R_Hand'' ''Bone_R_Clavicle'' ''hand'' 2 3"
  let ?ht = "new_target lib_int HeadRotTarget ''dom'' ''Bone_Head'' ''Bone_Neck'' ''head'' 2 3"
  have c: "target_class ?tt = TrajectoryTarget" "target_class ?ht = HeadRotTarget"
    "dominance ?tt = ''dom''"
    by (simp_all add: new_target_def)
  have a: "absent line_no_inflection (''dom'' @ ''handreloc'')"
    "absent line_no_inflection (''dom'' @ ''handreloca'')"
    "absent line_no_inflection (''dom'' @ ''handrelocs'')"
    "absent line_no_inflection ''headrot''"
    by code_simp+
  from absent_vector_inflection [of ?tt line_no_inflection lib_int float_dec] c a
  have 1: "init_from_mms lib_int float_dec line_no_inflection ?tt = Inl TypeError" by simp
  from absent_vector_inflection [of ?ht line_no_inflection lib_int float_dec 1
      "\<lparr>armature_bones = Map.empty, dict_bones = Map.empty, keyframes = []\<rparr>"] c a
  have 2: "init_from_mms lib_int float_dec line_no_inflection ?ht = Inr (?ht\<lparr>delta_o := None\<rparr>) \<and>
     inflect lib_int 1 (?ht\<lparr>delta_o := None\<rparr>)
       \<lparr>armature_bones = Map.empty, dict_bones = Map.empty, keyframes = []\<rparr> = Inl TypeError"
    by simp
  from 1 2 show ?thesis by simp
qed

end
